theory Spec2Isabelle
  imports Complex_Main
begin

section \<open>The C type double\<close>

text \<open>
  Every quantity of the simulation is a C \<^verbatim>\<open>double\<close>.  A double is modelled as a finite
  real number, one of the two infinities or a NaN, so that a division by zero, an overflow
  and the propagation of a NaN, which the program never traps, are values of the model.
  Zero carries no sign: \<open>Fin 0\<close> stands for both zeros of the machine, and a division of a
  non-zero finite number by zero gives the infinity of the sign of the numerator.

  The rounding is a parameter \<open>r\<close> of every function: it maps the exact real result of an
  operation on finite operands to the double the operation delivers, which may be an
  infinity (overflow) or zero (underflow).  A theorem stated for every \<open>r\<close> holds whatever
  the arithmetic rounds to.  \<open>round53\<close> is the rounding of IEEE binary64: to nearest, ties
  to even, with a significand of 53 bits, gradual underflow below \<open>2\<^sup>-\<^sup>1\<^sup>0\<^sup>2\<^sup>2\<close> and overflow
  to an infinity above the largest finite double.  \<open>exact\<close> rounds nothing; it is the
  arithmetic of the real numbers and serves in auxiliary facts only.
\<close>

datatype dbl = Fin real | PInf | NInf | NaN

type_synonym rounding = "real \<Rightarrow> dbl"

abbreviation (input) exact :: rounding where
  "exact \<equiv> Fin"

text \<open>The infinity of a sign; \<open>True\<close> is positive.\<close>

fun inf_of_sign :: "bool \<Rightarrow> dbl" where
  "inf_of_sign True = PInf"
| "inf_of_sign False = NInf"

text \<open>
  Round to nearest, ties to even.  \<open>nearest53\<close> rounds to 53 significant bits whatever the
  exponent: \<open>u\<close> is the unit in the last place of the binade of \<open>v\<close>.  \<open>round53\<close> rounds a
  number below the smallest normal double to a multiple of \<open>2\<^sup>-\<^sup>1\<^sup>0\<^sup>7\<^sup>4\<close> instead, and delivers
  an infinity when the rounded number exceeds \<^verbatim>\<open>DBL_MAX\<close>.
\<close>

definition round_even :: "real \<Rightarrow> int" where
  "round_even y =
     (let f = \<lfloor>y\<rfloor>;
          d = y - of_int f
      in if d < 1 / 2 then f else if 1 / 2 < d then f + 1 else if even f then f else f + 1)"

definition nearest53 :: "real \<Rightarrow> real" where
  "nearest53 v =
     (if v = 0 then 0
      else let u = 2 powr (of_int \<lfloor>log 2 \<bar>v\<bar>\<rfloor> - 52) in of_int (round_even (v / u)) * u)"

definition DBL_MAX :: real where
  "DBL_MAX = (2 ^ 53 - 1) * 2 ^ 971"

definition round53 :: rounding where
  "round53 v =
     (let x = (if \<bar>v\<bar> < 1 / 2 ^ 1022 then of_int (round_even (v * 2 ^ 1074)) / 2 ^ 1074
               else nearest53 v)
      in if DBL_MAX < \<bar>x\<bar> then inf_of_sign (0 < x) else Fin x)"

fun finite_dbl :: "dbl \<Rightarrow> bool" where
  "finite_dbl (Fin a) = True"
| "finite_dbl PInf = False"
| "finite_dbl NInf = False"
| "finite_dbl NaN = False"

fun val :: "dbl \<Rightarrow> real" where
  "val (Fin a) = a"
| "val PInf = 0"
| "val NInf = 0"
| "val NaN = 0"

fun isnan :: "dbl \<Rightarrow> bool" where
  "isnan NaN = True"
| "isnan (Fin a) = False"
| "isnan PInf = False"
| "isnan NInf = False"

text \<open>A literal of the source, and the conversion of an int to double.\<close>

definition lit :: "rounding \<Rightarrow> real \<Rightarrow> dbl" where
  "lit r q = r q"

definition dbl_of_int :: "rounding \<Rightarrow> int \<Rightarrow> dbl" where
  "dbl_of_int r k = r (of_int k)"

fun dneg :: "dbl \<Rightarrow> dbl" where
  "dneg (Fin a) = Fin (- a)"
| "dneg PInf = NInf"
| "dneg NInf = PInf"
| "dneg NaN = NaN"

fun dadd :: "rounding \<Rightarrow> dbl \<Rightarrow> dbl \<Rightarrow> dbl" where
  "dadd r (Fin a) (Fin b) = r (a + b)"
| "dadd r NaN b = NaN"
| "dadd r a NaN = NaN"
| "dadd r PInf NInf = NaN"
| "dadd r NInf PInf = NaN"
| "dadd r PInf b = PInf"
| "dadd r NInf b = NInf"
| "dadd r (Fin a) PInf = PInf"
| "dadd r (Fin a) NInf = NInf"

definition dsub :: "rounding \<Rightarrow> dbl \<Rightarrow> dbl \<Rightarrow> dbl" where
  "dsub r a b = dadd r a (dneg b)"

fun dmul :: "rounding \<Rightarrow> dbl \<Rightarrow> dbl \<Rightarrow> dbl" where
  "dmul r (Fin a) (Fin b) = r (a * b)"
| "dmul r NaN b = NaN"
| "dmul r a NaN = NaN"
| "dmul r PInf (Fin b) = (if b = 0 then NaN else inf_of_sign (0 < b))"
| "dmul r NInf (Fin b) = (if b = 0 then NaN else inf_of_sign (b < 0))"
| "dmul r (Fin a) PInf = (if a = 0 then NaN else inf_of_sign (0 < a))"
| "dmul r (Fin a) NInf = (if a = 0 then NaN else inf_of_sign (a < 0))"
| "dmul r PInf PInf = PInf"
| "dmul r PInf NInf = NInf"
| "dmul r NInf PInf = NInf"
| "dmul r NInf NInf = PInf"

fun ddiv :: "rounding \<Rightarrow> dbl \<Rightarrow> dbl \<Rightarrow> dbl" where
  "ddiv r (Fin a) (Fin b) =
     (if b = 0 then (if a = 0 then NaN else inf_of_sign (0 < a)) else r (a / b))"
| "ddiv r NaN b = NaN"
| "ddiv r a NaN = NaN"
| "ddiv r (Fin a) PInf = Fin 0"
| "ddiv r (Fin a) NInf = Fin 0"
| "ddiv r PInf (Fin b) = inf_of_sign (0 \<le> b)"
| "ddiv r NInf (Fin b) = inf_of_sign (b < 0)"
| "ddiv r PInf PInf = NaN"
| "ddiv r PInf NInf = NaN"
| "ddiv r NInf PInf = NaN"
| "ddiv r NInf NInf = NaN"

fun dsqrt :: "rounding \<Rightarrow> dbl \<Rightarrow> dbl" where
  "dsqrt r (Fin a) = (if a < 0 then NaN else r (sqrt a))"
| "dsqrt r PInf = PInf"
| "dsqrt r NInf = NaN"
| "dsqrt r NaN = NaN"

fun dacos :: "rounding \<Rightarrow> dbl \<Rightarrow> dbl" where
  "dacos r (Fin a) = (if - 1 \<le> a \<and> a \<le> 1 then r (arccos a) else NaN)"
| "dacos r PInf = NaN"
| "dacos r NInf = NaN"
| "dacos r NaN = NaN"

fun dcos :: "rounding \<Rightarrow> dbl \<Rightarrow> dbl" where
  "dcos r (Fin a) = r (cos a)"
| "dcos r PInf = NaN"
| "dcos r NInf = NaN"
| "dcos r NaN = NaN"

fun dfabs :: "dbl \<Rightarrow> dbl" where
  "dfabs (Fin a) = Fin \<bar>a\<bar>"
| "dfabs PInf = PInf"
| "dfabs NInf = PInf"
| "dfabs NaN = NaN"

text \<open>Comparisons: every ordered comparison with a NaN is false, and \<^verbatim>\<open>!=\<close> is true.\<close>

fun dlt :: "dbl \<Rightarrow> dbl \<Rightarrow> bool" where
  "dlt (Fin a) (Fin b) = (a < b)"
| "dlt NaN b = False"
| "dlt a NaN = False"
| "dlt a NInf = False"
| "dlt PInf b = False"
| "dlt NInf b = True"
| "dlt (Fin a) PInf = True"

fun dle :: "dbl \<Rightarrow> dbl \<Rightarrow> bool" where
  "dle (Fin a) (Fin b) = (a \<le> b)"
| "dle NaN b = False"
| "dle a NaN = False"
| "dle NInf b = True"
| "dle a PInf = True"
| "dle PInf b = False"
| "dle (Fin a) NInf = False"

definition dgt :: "dbl \<Rightarrow> dbl \<Rightarrow> bool" where
  "dgt a b = dlt b a"

fun deq :: "dbl \<Rightarrow> dbl \<Rightarrow> bool" where
  "deq NaN b = False"
| "deq a NaN = False"
| "deq a b = (a = b)"

definition dne :: "dbl \<Rightarrow> dbl \<Rightarrow> bool" where
  "dne a b = (\<not> deq a b)"

section \<open>Vectors (vmath.h)\<close>

text \<open>
  Modelled from the spec: the header vmath.h (the type \<^verbatim>\<open>Vec3\<close> with its components
  \<^verbatim>\<open>x\<close>, \<^verbatim>\<open>y\<close>, \<^verbatim>\<open>z\<close> and the inline functions on it) is not among the sources.  The spec
  describes it as the 3-component vector add, sub, scale, dot, length, angle and dihedral
  angle operations, pure functions without state; system.c fixes the argument order
  (\<^verbatim>\<open>sub(a, b, dest)\<close> stores \<open>a - b\<close>).  The fields are named \<open>vec_x\<close>, \<open>vec_y\<close>, \<open>vec_z\<close>.
\<close>

record Vec3 =
  vec_x :: dbl
  vec_y :: dbl
  vec_z :: dbl

definition add :: "rounding \<Rightarrow> Vec3 \<Rightarrow> Vec3 \<Rightarrow> Vec3" where
  "add r a b = \<lparr>vec_x = dadd r (vec_x a) (vec_x b), vec_y = dadd r (vec_y a) (vec_y b),
               vec_z = dadd r (vec_z a) (vec_z b)\<rparr>"

definition sub :: "rounding \<Rightarrow> Vec3 \<Rightarrow> Vec3 \<Rightarrow> Vec3" where
  "sub r a b = \<lparr>vec_x = dsub r (vec_x a) (vec_x b), vec_y = dsub r (vec_y a) (vec_y b),
               vec_z = dsub r (vec_z a) (vec_z b)\<rparr>"

definition scale :: "rounding \<Rightarrow> Vec3 \<Rightarrow> dbl \<Rightarrow> Vec3" where
  "scale r v l = \<lparr>vec_x = dmul r (vec_x v) l, vec_y = dmul r (vec_y v) l,
                 vec_z = dmul r (vec_z v) l\<rparr>"

definition dot :: "rounding \<Rightarrow> Vec3 \<Rightarrow> Vec3 \<Rightarrow> dbl" where
  "dot r a b = dadd r (dadd r (dmul r (vec_x a) (vec_x b)) (dmul r (vec_y a) (vec_y b)))
                      (dmul r (vec_z a) (vec_z b))"

definition length2 :: "rounding \<Rightarrow> Vec3 \<Rightarrow> dbl" where
  "length2 r v = dot r v v"

definition length_vec :: "rounding \<Rightarrow> Vec3 \<Rightarrow> dbl" where
  "length_vec r v = dsqrt r (length2 r v)"

definition distance2 :: "rounding \<Rightarrow> Vec3 \<Rightarrow> Vec3 \<Rightarrow> dbl" where
  "distance2 r a b = length2 r (sub r a b)"

definition cross :: "rounding \<Rightarrow> Vec3 \<Rightarrow> Vec3 \<Rightarrow> Vec3" where
  "cross r a b =
     \<lparr>vec_x = dsub r (dmul r (vec_y a) (vec_z b)) (dmul r (vec_z a) (vec_y b)),
      vec_y = dsub r (dmul r (vec_z a) (vec_x b)) (dmul r (vec_x a) (vec_z b)),
      vec_z = dsub r (dmul r (vec_x a) (vec_y b)) (dmul r (vec_y a) (vec_x b))\<rparr>"

text \<open>
  Modelled from the spec: the dihedral angle of three consecutive bond vectors, which the
  spec only names.  It is taken as the signed angle between the planes spanned by
  \<open>(v1, v2)\<close> and \<open>(v2, v3)\<close>, computed with the two-argument arctangent; a non-finite
  argument gives a NaN.  Of the theorems below only the evaluation of \<^verbatim>\<open>Fdihedral\<close> at a
  planar configuration depends on the body of this function.
\<close>

definition atan2 :: "real \<Rightarrow> real \<Rightarrow> real" where
  "atan2 b a =
     (if 0 < a then arctan (b / a)
      else if a < 0 then (if 0 \<le> b then arctan (b / a) + pi else arctan (b / a) - pi)
      else if 0 < b then pi / 2
      else if b < 0 then - (pi / 2)
      else 0)"

fun datan2 :: "rounding \<Rightarrow> dbl \<Rightarrow> dbl \<Rightarrow> dbl" where
  "datan2 r (Fin b) (Fin a) = r (atan2 b a)"
| "datan2 r b a = NaN"

definition dihedral :: "rounding \<Rightarrow> Vec3 \<Rightarrow> Vec3 \<Rightarrow> Vec3 \<Rightarrow> dbl" where
  "dihedral r v1 v2 v3 =
     (let v1xv2 = cross r v1 v2;
          v2xv3 = cross r v2 v3
      in datan2 r (dmul r (length_vec r v2) (dot r v1 v2xv3)) (dot r v1xv2 v2xv3))"

section \<open>Particles, world and configuration (system.h)\<close>

text \<open>
  Modelled from the spec: system.h is not among the sources.  A particle has a position, a
  velocity, a force accumulator and a mass (\<^verbatim>\<open>pos\<close>, \<^verbatim>\<open>vel\<close>, \<^verbatim>\<open>F\<close>, \<^verbatim>\<open>m\<close> in system.c; here
  \<open>pos\<close>, \<open>vel\<close>, \<open>force\<close>, \<open>mass\<close>).  The world is the array \<^verbatim>\<open>world.all\<close> of
  \<open>3 * numMonomers\<close> particles that \<^verbatim>\<open>allocWorld\<close> allocates; \<^verbatim>\<open>world.Ss\<close>, \<^verbatim>\<open>world.As\<close> and
  \<^verbatim>\<open>world.Ps\<close> point into it at the offsets \<open>0\<close>, \<open>numMonomers\<close> and \<open>2 * numMonomers\<close>.
  A pointer to a particle is its index in \<^verbatim>\<open>world.all\<close>.  Reading or writing outside the
  array is undefined in C; the theorems below are about worlds of the allocated size.
\<close>

record Particle =
  pos :: Vec3
  vel :: Vec3
  force :: Vec3
  mass :: dbl

type_synonym World = "Particle list"

record Config =
  numMonomers :: int
  timeStep :: dbl
  thermostatTau :: dbl
  thermostatTemp :: dbl

definition numParticles :: "Config \<Rightarrow> nat" where
  "numParticles cfg = nat (3 * numMonomers cfg)"

definition Ss :: "Config \<Rightarrow> nat \<Rightarrow> nat" where
  "Ss cfg i = i"

definition As :: "Config \<Rightarrow> nat \<Rightarrow> nat" where
  "As cfg i = nat (1 * numMonomers cfg) + i"

definition Ps :: "Config \<Rightarrow> nat \<Rightarrow> nat" where
  "Ps cfg i = nat (2 * numMonomers cfg) + i"

section \<open>Constants of system.c\<close>

text \<open>
  The macros of system.c.  A decimal literal is rounded when it is read, and the operations
  of a macro round as every other operation does.
\<close>

definition D_S5P :: "rounding \<Rightarrow> dbl" where
  "D_S5P r = lit r (3899 / 10 ^ 13)"

definition D_S3P :: "rounding \<Rightarrow> dbl" where
  "D_S3P r = lit r (3559 / 10 ^ 13)"

definition D_SA :: "rounding \<Rightarrow> dbl" where
  "D_SA r = lit r (6430 / 10 ^ 13)"

definition STACK_SIGMA :: "rounding \<Rightarrow> dbl" where
  "STACK_SIGMA r = lit r (3414 / 10 ^ 13)"

definition EPSILON :: "rounding \<Rightarrow> dbl" where
  "EPSILON r = lit r (181 / 10 ^ 23)"

definition FROM_ANGSTROM_SQUARED :: "rounding \<Rightarrow> dbl" where
  "FROM_ANGSTROM_SQUARED r = lit r (10 ^ 20)"

definition BOND_K1 :: "rounding \<Rightarrow> dbl" where
  "BOND_K1 r = dmul r (EPSILON r) (FROM_ANGSTROM_SQUARED r)"

definition BOND_K2 :: "rounding \<Rightarrow> dbl" where
  "BOND_K2 r = dmul r (dmul r (lit r 100) (EPSILON r)) (FROM_ANGSTROM_SQUARED r)"

definition BOND_Ktheta :: "rounding \<Rightarrow> dbl" where
  "BOND_Ktheta r = dmul r (lit r 400) (EPSILON r)"

definition BOND_Kphi :: "rounding \<Rightarrow> dbl" where
  "BOND_Kphi r = dmul r (lit r 4) (EPSILON r)"

definition BOND_STACK :: "rounding \<Rightarrow> dbl" where
  "BOND_STACK r = EPSILON r"

definition M_PI :: "rounding \<Rightarrow> dbl" where
  "M_PI r = lit r (314159265358979323846 / 10 ^ 20)"

definition TO_RADIANS :: "rounding \<Rightarrow> dbl" where
  "TO_RADIANS r = ddiv r (M_PI r) (lit r 180)"

definition ANGLE_S5_P_3S :: "rounding \<Rightarrow> dbl" where
  "ANGLE_S5_P_3S r = dmul r (lit r (9449 / 100)) (TO_RADIANS r)"

definition ANGLE_P_5S3_P :: "rounding \<Rightarrow> dbl" where
  "ANGLE_P_5S3_P r = dmul r (lit r (12015 / 100)) (TO_RADIANS r)"

definition ANGLE_P_5S_A :: "rounding \<Rightarrow> dbl" where
  "ANGLE_P_5S_A r = dmul r (lit r (11313 / 100)) (TO_RADIANS r)"

definition ANGLE_P_3S_A :: "rounding \<Rightarrow> dbl" where
  "ANGLE_P_3S_A r = dmul r (lit r (10838 / 100)) (TO_RADIANS r)"

definition DIHEDRAL_P_5S3_P_5S :: "rounding \<Rightarrow> dbl" where
  "DIHEDRAL_P_5S3_P_5S r = dmul r (lit r (- (15480 / 100))) (TO_RADIANS r)"

definition DIHEDRAL_S3_P_5S3_P :: "rounding \<Rightarrow> dbl" where
  "DIHEDRAL_S3_P_5S3_P r = dmul r (lit r (- (17917 / 100))) (TO_RADIANS r)"

definition DIHEDRAL_A_S3_P_5S :: "rounding \<Rightarrow> dbl" where
  "DIHEDRAL_A_S3_P_5S r = dmul r (lit r (- (2260 / 100))) (TO_RADIANS r)"

definition DIHEDRAL_S3_P_5S_A :: "rounding \<Rightarrow> dbl" where
  "DIHEDRAL_S3_P_5S_A r = dmul r (lit r (5069 / 100)) (TO_RADIANS r)"

definition BOLTZMANN_CONSTANT :: "rounding \<Rightarrow> dbl" where
  "BOLTZMANN_CONSTANT r = lit r (138065 / 10 ^ 28)"

section \<open>Failures and loops\<close>

text \<open>
  The only way the physics kernel stops is a failed \<^verbatim>\<open>assert\<close>, which aborts the process.
  The assertions are modelled as compiled in (no \<^verbatim>\<open>NDEBUG\<close>).  A function that can fail
  returns \<open>error + World\<close>.
\<close>

datatype error = AssertionFailed

primrec for_loop :: "nat list \<Rightarrow> (nat \<Rightarrow> 's \<Rightarrow> error + 's) \<Rightarrow> 's \<Rightarrow> error + 's" where
  "for_loop [] body s = Inr s"
| "for_loop (i # is) body s =
     (case body i s of Inl e \<Rightarrow> Inl e | Inr s' \<Rightarrow> for_loop is body s')"

definition and_then :: "error + 's \<Rightarrow> ('s \<Rightarrow> error + 't) \<Rightarrow> error + 't" where
  "and_then m f = (case m of Inl e \<Rightarrow> Inl e | Inr s \<Rightarrow> f s)"

section \<open>The force field\<close>

subsection \<open>Bond stretch\<close>

definition Fbond :: "rounding \<Rightarrow> nat \<Rightarrow> nat \<Rightarrow> dbl \<Rightarrow> World \<Rightarrow> World" where
  "Fbond r p1 p2 d0 w =
     (let k1 = BOND_K1 r;
          k2 = BOND_K2 r;
          drVec = sub r (pos (w ! p2)) (pos (w ! p1));
          dr = length_vec r drVec;
          d = dsub r dr d0;
          d3 = dmul r (dmul r d d) d;
          drVecNormalized = scale r drVec (ddiv r (lit r 1) dr);
          F = scale r drVecNormalized
                (dadd r (dmul r (dmul r (lit r 2) k1) d) (dmul r (dmul r (lit r 4) k2) d3));
          w1 = w[p1 := (w ! p1)\<lparr>force := add r (force (w ! p1)) F\<rparr>]
      in w1[p2 := (w1 ! p2)\<lparr>force := sub r (force (w1 ! p2)) F\<rparr>])"

subsection \<open>Angle bend\<close>

definition Fangle :: "rounding \<Rightarrow> nat \<Rightarrow> nat \<Rightarrow> nat \<Rightarrow> dbl \<Rightarrow> World \<Rightarrow> error + World" where
  "Fangle r p1 p2 p3 theta0 w =
     (let ktheta = BOND_Ktheta r;
          a = sub r (pos (w ! p1)) (pos (w ! p2));
          b = sub r (pos (w ! p3)) (pos (w ! p2));
          lal = length_vec r a;
          lbl = length_vec r b;
          adotb = dot r a b;
          costheta = ddiv r adotb (dmul r lal lbl);
          theta = dacos r costheta;
          sintheta = dsqrt r (dsub r (lit r 1) (dmul r costheta costheta))
      in if dlt (dfabs sintheta) (lit r (1 / 10 ^ 30)) then Inr w
         else
           let tmp1 = scale r b (ddiv r (lit r 1) (dmul r lal lbl));
               tmp2 = scale r a (ddiv r adotb (dmul r (dmul r (dmul r lal lal) lal) lbl));
               F1 = scale r (sub r tmp1 tmp2)
                      (ddiv r (dmul r ktheta (dsub r theta theta0)) sintheta);
               w1 = w[p1 := (w ! p1)\<lparr>force := add r (force (w ! p1)) F1\<rparr>];
               tmp1' = scale r a (ddiv r (lit r 1) (dmul r lal lbl));
               tmp2' = scale r b (ddiv r adotb (dmul r (dmul r (dmul r lbl lbl) lbl) lal));
               F3 = scale r (sub r tmp1' tmp2')
                      (ddiv r (dmul r ktheta (dsub r theta theta0)) sintheta);
               w2 = w1[p3 := (w1 ! p3)\<lparr>force := add r (force (w1 ! p3)) F3\<rparr>];
               F2 = add r F1 F3;
               w3 = w2[p2 := (w2 ! p2)\<lparr>force := sub r (force (w2 ! p2)) F2\<rparr>]
           in if (deq ktheta (lit r 0)
                  \<or> dlt (dfabs (ddiv r (ddiv r (dot r a F1) (length_vec r a)) (length_vec r F1)))
                         (lit r (1 / 10 ^ 5)))
               \<and> (deq ktheta (lit r 0)
                  \<or> dlt (dfabs (ddiv r (ddiv r (dot r b F3) (length_vec r b)) (length_vec r F3)))
                         (lit r (1 / 10 ^ 5)))
              then Inr w3 else Inl AssertionFailed)"

subsection \<open>Dihedral torsion\<close>

definition Vdihedral :: "rounding \<Rightarrow> nat \<Rightarrow> nat \<Rightarrow> nat \<Rightarrow> nat \<Rightarrow> dbl \<Rightarrow> World \<Rightarrow> dbl" where
  "Vdihedral r p1 p2 p3 p4 phi0 w =
     (let kphi = BOND_Kphi r;
          r1 = sub r (pos (w ! p2)) (pos (w ! p1));
          r2 = sub r (pos (w ! p3)) (pos (w ! p2));
          r3 = sub r (pos (w ! p4)) (pos (w ! p3));
          phi = dihedral r r1 r2 r3
      in dmul r kphi (dsub r (lit r 1) (dcos r (dsub r phi phi0))))"

text \<open>The assignments \<^verbatim>\<open>target->pos.x += h\<close> and \<^verbatim>\<open>target->pos.x -= h\<close>, and those of y and z.\<close>

definition pos_x_add :: "rounding \<Rightarrow> nat \<Rightarrow> dbl \<Rightarrow> World \<Rightarrow> World" where
  "pos_x_add r t h w = w[t := (w ! t)\<lparr>pos := (pos (w ! t))\<lparr>vec_x := dadd r (vec_x (pos (w ! t))) h\<rparr>\<rparr>]"

definition pos_x_sub :: "rounding \<Rightarrow> nat \<Rightarrow> dbl \<Rightarrow> World \<Rightarrow> World" where
  "pos_x_sub r t h w = w[t := (w ! t)\<lparr>pos := (pos (w ! t))\<lparr>vec_x := dsub r (vec_x (pos (w ! t))) h\<rparr>\<rparr>]"

definition pos_y_add :: "rounding \<Rightarrow> nat \<Rightarrow> dbl \<Rightarrow> World \<Rightarrow> World" where
  "pos_y_add r t h w = w[t := (w ! t)\<lparr>pos := (pos (w ! t))\<lparr>vec_y := dadd r (vec_y (pos (w ! t))) h\<rparr>\<rparr>]"

definition pos_y_sub :: "rounding \<Rightarrow> nat \<Rightarrow> dbl \<Rightarrow> World \<Rightarrow> World" where
  "pos_y_sub r t h w = w[t := (w ! t)\<lparr>pos := (pos (w ! t))\<lparr>vec_y := dsub r (vec_y (pos (w ! t))) h\<rparr>\<rparr>]"

definition pos_z_add :: "rounding \<Rightarrow> nat \<Rightarrow> dbl \<Rightarrow> World \<Rightarrow> World" where
  "pos_z_add r t h w = w[t := (w ! t)\<lparr>pos := (pos (w ! t))\<lparr>vec_z := dadd r (vec_z (pos (w ! t))) h\<rparr>\<rparr>]"

definition pos_z_sub :: "rounding \<Rightarrow> nat \<Rightarrow> dbl \<Rightarrow> World \<Rightarrow> World" where
  "pos_z_sub r t h w = w[t := (w ! t)\<lparr>pos := (pos (w ! t))\<lparr>vec_z := dsub r (vec_z (pos (w ! t))) h\<rparr>\<rparr>]"

definition FdihedralParticle ::
  "rounding \<Rightarrow> nat \<Rightarrow> nat \<Rightarrow> nat \<Rightarrow> nat \<Rightarrow> nat \<Rightarrow> dbl \<Rightarrow> dbl \<Rightarrow> World \<Rightarrow> World" where
  "FdihedralParticle r target p1 p2 p3 p4 Vorig phi0 w =
     (let hfactor = lit r (1 / 10 ^ 8);
          hx = dmul r (vec_x (pos (w ! target))) hfactor;
          w1 = pos_x_add r target hx w;
          Fx = ddiv r (dsub r Vorig (Vdihedral r p1 p2 p3 p4 phi0 w1)) hx;
          w2 = pos_x_sub r target hx w1;
          hy = dmul r (vec_y (pos (w2 ! target))) hfactor;
          w3 = pos_y_add r target hy w2;
          Fy = ddiv r (dsub r Vorig (Vdihedral r p1 p2 p3 p4 phi0 w3)) hy;
          w4 = pos_y_sub r target hy w3;
          hz = dmul r (vec_z (pos (w4 ! target))) hfactor;
          w5 = pos_z_add r target hz w4;
          Fz = ddiv r (dsub r Vorig (Vdihedral r p1 p2 p3 p4 phi0 w5)) hz;
          w6 = pos_z_sub r target hz w5
      in w6[target := (w6 ! target)
              \<lparr>force := add r (force (w6 ! target)) \<lparr>vec_x = Fx, vec_y = Fy, vec_z = Fz\<rparr>\<rparr>])"

definition Fdihedral :: "rounding \<Rightarrow> nat \<Rightarrow> nat \<Rightarrow> nat \<Rightarrow> nat \<Rightarrow> dbl \<Rightarrow> World \<Rightarrow> World" where
  "Fdihedral r p1 p2 p3 p4 phi0 w =
     (let Vorig = Vdihedral r p1 p2 p3 p4 phi0 w;
          w1 = FdihedralParticle r p1 p1 p2 p3 p4 Vorig phi0 w;
          w2 = FdihedralParticle r p2 p1 p2 p3 p4 Vorig phi0 w1;
          w3 = FdihedralParticle r p3 p1 p2 p3 p4 Vorig phi0 w2
      in FdihedralParticle r p4 p1 p2 p3 p4 Vorig phi0 w3)"

subsection \<open>Stacking\<close>

definition Vstack :: "rounding \<Rightarrow> Particle \<Rightarrow> Particle \<Rightarrow> dbl" where
  "Vstack r p1 p2 =
     (let kStack = BOND_STACK r;
          sigma = STACK_SIGMA r;
          sigma2 = dmul r sigma sigma;
          sigma6 = dmul r (dmul r sigma2 sigma2) sigma2;
          sigma12 = dmul r sigma6 sigma6;
          r2 = distance2 r (pos p1) (pos p2);
          r6 = dmul r (dmul r r2 r2) r2;
          r12 = dmul r r6 r6
      in dmul r kStack
           (dadd r (dsub r (ddiv r sigma12 r12) (ddiv r (dmul r (lit r 2) sigma6) r6)) (lit r 1)))"

definition Fstack :: "rounding \<Rightarrow> nat \<Rightarrow> nat \<Rightarrow> World \<Rightarrow> error + World" where
  "Fstack r p1 p2 w =
     (let kStack = BOND_STACK r;
          sigma = STACK_SIGMA r;
          sigma2 = dmul r sigma sigma;
          sigma6 = dmul r (dmul r sigma2 sigma2) sigma2;
          sigma12 = dmul r sigma6 sigma6;
          drVec = sub r (pos (w ! p2)) (pos (w ! p1));
          dr = length_vec r drVec
      in if \<not> dne dr (lit r 0) then Inl AssertionFailed
         else
           let dr2 = dmul r dr dr;
               dr3 = dmul r (dmul r dr dr) dr;
               dr6 = dmul r dr3 dr3;
               dr8 = dmul r dr6 dr2;
               dr12 = dmul r dr6 dr6;
               dr14 = dmul r dr12 dr2;
               Fi = scale r drVec
                      (dmul r (dmul r (lit r (- 12)) kStack)
                              (dsub r (ddiv r sigma12 dr14) (ddiv r sigma6 dr8)));
               w1 = w[p1 := (w ! p1)\<lparr>force := add r (force (w ! p1)) Fi\<rparr>]
           in Inr (w1[p2 := (w1 ! p2)\<lparr>force := sub r (force (w1 ! p2)) Fi\<rparr>]))"

subsection \<open>The full force pass\<close>

definition reset_forces :: "rounding \<Rightarrow> Config \<Rightarrow> World \<Rightarrow> World" where
  "reset_forces r cfg w =
     fold (\<lambda>i w. w[i := (w ! i)\<lparr>force := \<lparr>vec_x = lit r 0, vec_y = lit r 0, vec_z = lit r 0\<rparr>\<rparr>])
          [0 ..< numParticles cfg] w"

definition monomer_forces :: "rounding \<Rightarrow> Config \<Rightarrow> nat \<Rightarrow> World \<Rightarrow> error + World" where
  "monomer_forces r cfg i w =
     (let w1 = Fbond r (Ss cfg i) (As cfg i) (D_SA r) w;
          w2 = Fbond r (Ss cfg i) (Ps cfg i) (D_S5P r) w1;
          w3 = Fbond r (Ss cfg i) (Ps cfg (i - 1)) (D_S3P r) w2
      in and_then (Fstack r (As cfg i) (As cfg (i - 1)) w3) (\<lambda>w4.
         and_then (Fangle r (Ps cfg i) (Ss cfg i) (As cfg i) (ANGLE_P_5S_A r) w4) (\<lambda>w5.
         and_then (Fangle r (Ps cfg i) (Ss cfg i) (Ps cfg (i - 1)) (ANGLE_P_5S3_P r) w5) (\<lambda>w6.
         and_then (Fangle r (Ps cfg (i - 1)) (Ss cfg i) (As cfg i) (ANGLE_P_3S_A r) w6) (\<lambda>w7.
         and_then (Fangle r (Ss cfg (i - 1)) (Ps cfg (i - 1)) (Ss cfg i) (ANGLE_S5_P_3S r) w7) (\<lambda>w8.
           let w9 = Fdihedral r (Ps cfg i) (Ss cfg i) (Ps cfg (i - 1)) (Ss cfg (i - 1))
                      (DIHEDRAL_P_5S3_P_5S r) w8;
               w10 = Fdihedral r (As cfg i) (Ss cfg i) (Ps cfg (i - 1)) (Ss cfg (i - 1))
                       (DIHEDRAL_A_S3_P_5S r) w9;
               w11 = Fdihedral r (Ss cfg i) (Ps cfg (i - 1)) (Ss cfg (i - 1)) (As cfg (i - 1))
                       (DIHEDRAL_S3_P_5S_A r) w10
           in Inr (if 2 \<le> i
                   then Fdihedral r (Ss cfg i) (Ps cfg (i - 1)) (Ss cfg (i - 1)) (Ps cfg (i - 2))
                          (DIHEDRAL_S3_P_5S3_P r) w11
                   else w11)))))))"

definition calculateForces :: "rounding \<Rightarrow> Config \<Rightarrow> World \<Rightarrow> error + World" where
  "calculateForces r cfg w =
     (let w0 = reset_forces r cfg w;
          w1 = Fbond r (Ss cfg 0) (As cfg 0) (D_SA r) w0;
          w2 = Fbond r (Ss cfg 0) (Ps cfg 0) (D_S5P r) w1
      in and_then (Fangle r (Ps cfg 0) (Ss cfg 0) (As cfg 0) (ANGLE_P_5S_A r) w2)
           (for_loop [1 ..< nat (numMonomers cfg)] (monomer_forces r cfg)))"

section \<open>Integrator and thermostat\<close>

definition verlet_first_body :: "rounding \<Rightarrow> dbl \<Rightarrow> nat \<Rightarrow> World \<Rightarrow> error + World" where
  "verlet_first_body r dt i w =
     (let p = w ! i;
          tmp = scale r (force p) (ddiv r dt (dmul r (lit r 2) (mass p)));
          v = add r (vel p) tmp
      in if \<not> (\<not> isnan (vec_x v) \<and> \<not> isnan (vec_y v) \<and> \<not> isnan (vec_z v))
         then Inl AssertionFailed
         else
           let tmp' = scale r v dt
           in Inr (w[i := p\<lparr>vel := v, pos := add r (pos p) tmp'\<rparr>]))"

definition verlet_first_loop :: "rounding \<Rightarrow> Config \<Rightarrow> World \<Rightarrow> error + World" where
  "verlet_first_loop r cfg w =
     for_loop [0 ..< numParticles cfg] (verlet_first_body r (timeStep cfg)) w"

definition verlet_second_body :: "rounding \<Rightarrow> dbl \<Rightarrow> nat \<Rightarrow> World \<Rightarrow> World" where
  "verlet_second_body r dt i w =
     (let p = w ! i;
          tmp = scale r (force p) (ddiv r dt (dmul r (lit r 2) (mass p)))
      in w[i := p\<lparr>vel := add r (vel p) tmp\<rparr>])"

definition verlet :: "rounding \<Rightarrow> Config \<Rightarrow> World \<Rightarrow> error + World" where
  "verlet r cfg w =
     and_then (verlet_first_loop r cfg w) (\<lambda>w1.
     and_then (calculateForces r cfg w1) (\<lambda>w2.
       Inr (fold (verlet_second_body r (timeStep cfg)) [0 ..< numParticles cfg] w2)))"

section \<open>Diagnostics\<close>

definition kineticEnergy :: "rounding \<Rightarrow> Config \<Rightarrow> World \<Rightarrow> dbl" where
  "kineticEnergy r cfg w =
     ddiv r (fold (\<lambda>i twiceK. dadd r twiceK (dmul r (mass (w ! i)) (length2 r (vel (w ! i)))))
                  [0 ..< numParticles cfg] (lit r 0))
            (lit r 2)"

definition temperature :: "rounding \<Rightarrow> Config \<Rightarrow> World \<Rightarrow> dbl" where
  "temperature r cfg w =
     ddiv r (dmul r (ddiv r (lit r 2) (dmul r (lit r 3) (BOLTZMANN_CONSTANT r)))
                    (kineticEnergy r cfg w))
            (dmul r (dbl_of_int r (numMonomers cfg)) (lit r 3))"

definition thermostat_lambda :: "rounding \<Rightarrow> Config \<Rightarrow> World \<Rightarrow> dbl" where
  "thermostat_lambda r cfg w =
     (let Tk = temperature r cfg w;
          T0 = thermostatTemp cfg;
          dt = timeStep cfg;
          tau = thermostatTau cfg
      in dsqrt r (dadd r (lit r 1) (dmul r (ddiv r dt tau) (dsub r (ddiv r T0 Tk) (lit r 1)))))"

definition thermostat :: "rounding \<Rightarrow> Config \<Rightarrow> World \<Rightarrow> World" where
  "thermostat r cfg w =
     (if dle (thermostatTau cfg) (lit r 0) then w
      else
        let lambda = thermostat_lambda r cfg w
        in fold (\<lambda>i w. w[i := (w ! i)\<lparr>vel := scale r (vel (w ! i)) lambda\<rparr>])
                [0 ..< numParticles cfg] w)"

definition momentum :: "rounding \<Rightarrow> Config \<Rightarrow> World \<Rightarrow> Vec3" where
  "momentum r cfg w =
     fold (\<lambda>i Ptot. add r (scale r (vel (w ! i)) (mass (w ! i))) Ptot)
          [0 ..< numParticles cfg] \<lparr>vec_x = lit r 0, vec_y = lit r 0, vec_z = lit r 0\<rparr>"

text \<open>
  \<^verbatim>\<open>physicsCheck\<close> returns its verdict and writes to stderr; the model returns the verdict
  and the list of the messages written, a message being its one formatted argument.
\<close>

datatype message = MomentumViolated dbl

definition physicsCheck :: "rounding \<Rightarrow> Config \<Rightarrow> World \<Rightarrow> bool \<times> message list" where
  "physicsCheck r cfg w =
     (let P = momentum r cfg w;
          PPM = ddiv r (length_vec r P) (dbl_of_int r (numMonomers cfg))
      in if dgt PPM (lit r (1 / 10 ^ 20)) then (False, [MomentumViolated PPM]) else (True, []))"

section \<open>One step\<close>

text \<open>The state of a run: the world and the process-wide clock \<^verbatim>\<open>sim_time\<close>.\<close>

definition stepWorld :: "rounding \<Rightarrow> Config \<Rightarrow> World \<times> dbl \<Rightarrow> error + World \<times> dbl" where
  "stepWorld r cfg s =
     and_then (verlet r cfg (fst s)) (\<lambda>w1.
       if \<not> fst (physicsCheck r cfg w1) then Inl AssertionFailed
       else
         let w2 = thermostat r cfg w1
         in if \<not> fst (physicsCheck r cfg w2) then Inl AssertionFailed
            else Inr (w2, dadd r (snd s) (timeStep cfg)))"

section \<open>Notions used in the statements\<close>

text \<open>
  A world is allocated for a configuration when it has the size \<^verbatim>\<open>allocWorld\<close> gives it and
  at least one monomer (\<^verbatim>\<open>calculateForces\<close> reads monomer 0 unconditionally).
\<close>

definition allocated :: "Config \<Rightarrow> World \<Rightarrow> bool" where
  "allocated cfg w = (1 \<le> numMonomers cfg \<and> length w = numParticles cfg)"

definition finite_vec :: "Vec3 \<Rightarrow> bool" where
  "finite_vec v = (finite_dbl (vec_x v) \<and> finite_dbl (vec_y v) \<and> finite_dbl (vec_z v))"

definition vec :: "real \<Rightarrow> real \<Rightarrow> real \<Rightarrow> Vec3" where
  "vec a b c = \<lparr>vec_x = Fin a, vec_y = Fin b, vec_z = Fin c\<rparr>"

text \<open>The squared Euclidean norm of a finite vector.\<close>

definition norm2 :: "Vec3 \<Rightarrow> real" where
  "norm2 v = (val (vec_x v))\<^sup>2 + (val (vec_y v))\<^sup>2 + (val (vec_z v))\<^sup>2"

text \<open>The kinetic energy as the spec writes it: the sum of \<open>1/2 m |v|\<^sup>2\<close> over all particles.\<close>

definition kinetic_sum :: "World \<Rightarrow> real" where
  "kinetic_sum w = (\<Sum>p\<leftarrow>w. 1 / 2 * val (mass p) * norm2 (vel p))"

subsection \<open>Example configurations\<close>

definition cfg1 :: Config where
  "cfg1 = \<lparr>numMonomers = 1, timeStep = Fin 1, thermostatTau = Fin 1, thermostatTemp = Fin 300\<rparr>"

definition moving1 :: World where
  "moving1 =
     [\<lparr>pos = vec 0 0 0, vel = vec 1 0 0, force = vec 0 0 0, mass = Fin 2\<rparr>,
      \<lparr>pos = vec 1 0 0, vel = vec 0 (- 2) 0, force = vec 0 0 0, mass = Fin 1\<rparr>,
      \<lparr>pos = vec 0 1 0, vel = vec 0 0 0, force = vec 0 0 0, mass = Fin 3\<rparr>]"

definition nan_vec :: Vec3 where
  "nan_vec = \<lparr>vec_x = NaN, vec_y = NaN, vec_z = NaN\<rparr>"

definition frozen1 :: World where
  "frozen1 =
     [\<lparr>pos = vec 0 0 0, vel = vec 0 0 0, force = vec 0 0 0, mass = Fin 2\<rparr>,
      \<lparr>pos = vec 1 0 0, vel = vec 0 0 0, force = vec 0 0 0, mass = Fin 1\<rparr>,
      \<lparr>pos = vec 0 1 0, vel = vec 0 0 0, force = vec 0 0 0, mass = Fin 3\<rparr>]"

text \<open>
  The cosine and the sine of the angle between two bond vectors, as \<^verbatim>\<open>Fangle\<close> computes
  them before its test against the threshold.
\<close>

definition angle_cos :: "rounding \<Rightarrow> Vec3 \<Rightarrow> Vec3 \<Rightarrow> dbl" where
  "angle_cos r a b = ddiv r (dot r a b) (dmul r (length_vec r a) (length_vec r b))"

definition angle_sin :: "rounding \<Rightarrow> Vec3 \<Rightarrow> Vec3 \<Rightarrow> dbl" where
  "angle_sin r a b = dsqrt r (dsub r (lit r 1) (dmul r (angle_cos r a b) (angle_cos r a b)))"

text \<open>
  The first loop of \<^verbatim>\<open>verlet\<close> on one particle: the velocity after the first half update,
  as the code computes it, and the particle after its position update.
\<close>

definition half_kick :: "rounding \<Rightarrow> dbl \<Rightarrow> Particle \<Rightarrow> Vec3" where
  "half_kick r dt p = add r (vel p) (scale r (force p) (ddiv r dt (dmul r (lit r 2) (mass p))))"

definition kick_drift :: "rounding \<Rightarrow> dbl \<Rightarrow> Particle \<Rightarrow> Particle" where
  "kick_drift r dt p =
     p\<lparr>vel := half_kick r dt p, pos := add r (pos p) (scale r (half_kick r dt p) dt)\<rparr>"

definition has_nan :: "Vec3 \<Rightarrow> bool" where
  "has_nan v = (isnan (vec_x v) \<or> isnan (vec_y v) \<or> isnan (vec_z v))"

definition runaway1 :: World where
  "runaway1 =
     [\<lparr>pos = vec 0 0 0, vel = \<lparr>vec_x = PInf, vec_y = Fin 0, vec_z = Fin 0\<rparr>,
       force = vec 0 0 0, mass = Fin 1\<rparr>,
      \<lparr>pos = vec 1 0 0, vel = vec 0 0 0, force = vec 0 0 0, mass = Fin 1\<rparr>,
      \<lparr>pos = vec 0 1 0, vel = vec 0 0 0, force = vec 0 0 0, mass = Fin 1\<rparr>]"

definition nan_force1 :: World where
  "nan_force1 =
     [\<lparr>pos = vec 0 0 0, vel = vec 0 0 0, force = vec 0 0 0, mass = Fin 1\<rparr>,
      \<lparr>pos = vec 1 0 0, vel = vec 0 0 0, force = \<lparr>vec_x = Fin 0, vec_y = NaN, vec_z = Fin 0\<rparr>,
       mass = Fin 1\<rparr>,
      \<lparr>pos = vec 0 1 0, vel = vec 0 0 0, force = vec 0 0 0, mass = Fin 1\<rparr>]"

text \<open>
  What a force pass must leave alone: the position, velocity and mass of every particle.
\<close>

definition frame :: "World \<Rightarrow> (Vec3 \<times> Vec3 \<times> dbl) list" where
  "frame w = map (\<lambda>p. (pos p, vel p, mass p)) w"

definition finite_pos :: "World \<Rightarrow> bool" where
  "finite_pos w = (\<forall>p\<in>set w. finite_vec (pos p))"

text \<open>
  \<^verbatim>\<open>FdihedralParticle\<close> in two parts: the world after its three perturbations and
  restorations of the position of the target (which do not depend on the potential), and
  the finite-difference vector \<^verbatim>\<open>F\<close> it adds to the force of the target.
\<close>

definition fd_restore :: "rounding \<Rightarrow> nat \<Rightarrow> World \<Rightarrow> World" where
  "fd_restore r target w =
     (let hfactor = lit r (1 / 10 ^ 8);
          hx = dmul r (vec_x (pos (w ! target))) hfactor;
          w2 = pos_x_sub r target hx (pos_x_add r target hx w);
          hy = dmul r (vec_y (pos (w2 ! target))) hfactor;
          w4 = pos_y_sub r target hy (pos_y_add r target hy w2);
          hz = dmul r (vec_z (pos (w4 ! target))) hfactor
      in pos_z_sub r target hz (pos_z_add r target hz w4))"

definition fd_force ::
  "rounding \<Rightarrow> nat \<Rightarrow> nat \<Rightarrow> nat \<Rightarrow> nat \<Rightarrow> nat \<Rightarrow> dbl \<Rightarrow> dbl \<Rightarrow> World \<Rightarrow> Vec3" where
  "fd_force r target p1 p2 p3 p4 Vorig phi0 w =
     (let hfactor = lit r (1 / 10 ^ 8);
          hx = dmul r (vec_x (pos (w ! target))) hfactor;
          w1 = pos_x_add r target hx w;
          w2 = pos_x_sub r target hx w1;
          hy = dmul r (vec_y (pos (w2 ! target))) hfactor;
          w3 = pos_y_add r target hy w2;
          w4 = pos_y_sub r target hy w3;
          hz = dmul r (vec_z (pos (w4 ! target))) hfactor;
          w5 = pos_z_add r target hz w4
      in \<lparr>vec_x = ddiv r (dsub r Vorig (Vdihedral r p1 p2 p3 p4 phi0 w1)) hx,
          vec_y = ddiv r (dsub r Vorig (Vdihedral r p1 p2 p3 p4 phi0 w3)) hy,
          vec_z = ddiv r (dsub r Vorig (Vdihedral r p1 p2 p3 p4 phi0 w5)) hz\<rparr>)"


text \<open>The opposite of a vector.\<close>

definition vneg :: "Vec3 \<Rightarrow> Vec3" where
  "vneg v = \<lparr>vec_x = dneg (vec_x v), vec_y = dneg (vec_y v), vec_z = dneg (vec_z v)\<rparr>"

text \<open>Adding a vector to the force accumulator of one particle.\<close>

definition add_force :: "rounding \<Rightarrow> nat \<Rightarrow> Vec3 \<Rightarrow> World \<Rightarrow> World" where
  "add_force r i F w = w[i := (w ! i)\<lparr>force := add r (force (w ! i)) F\<rparr>]"


text \<open>
  A coordinate \<open>a\<close> after \<^verbatim>\<open>pos += h; pos -= h\<close> with \<open>h = a * 1e-8\<close>, every operation and
  the literal rounded by \<open>r\<close>.
\<close>

definition restored :: "rounding \<Rightarrow> real \<Rightarrow> dbl" where
  "restored r a =
     (let h = dmul r (Fin a) (lit r (1 / 10 ^ 8)) in dsub r (dadd r (Fin a) h) h)"

definition unit4 :: World where
  "unit4 =
     [\<lparr>pos = vec 1 0 0, vel = vec 0 0 0, force = vec 0 0 0, mass = Fin 1\<rparr>,
      \<lparr>pos = vec 1 1 2, vel = vec 0 0 0, force = vec 0 0 0, mass = Fin 1\<rparr>,
      \<lparr>pos = vec 2 3 1, vel = vec 0 0 0, force = vec 0 0 0, mass = Fin 1\<rparr>,
      \<lparr>pos = vec 3 2 2, vel = vec 0 0 0, force = vec 0 0 0, mass = Fin 1\<rparr>]"

text \<open>Particle \<open>i\<close> of the world has a position with a component that is not finite.\<close>

definition nonfinite_at :: "nat \<Rightarrow> World \<Rightarrow> bool" where
  "nonfinite_at i w = (i < length w \<and> \<not> finite_vec (pos (w ! i)))"

text \<open>
  The kinetic energy as the spec writes it, \<open>K = \<Sum> 1/2 m |v|\<^sup>2\<close>, in the arithmetic of the
  machine: the terms \<open>m |v|\<^sup>2\<close> are added in the order of the array, starting from zero, and
  the sum is halved.
\<close>

definition kinetic_energy :: "rounding \<Rightarrow> World \<Rightarrow> dbl" where
  "kinetic_energy r w =
     ddiv r (foldl (\<lambda>s p. dadd r s (dmul r (mass p) (length2 r (vel p)))) (lit r 0) w) (lit r 2)"

text \<open>
  The total momentum as the spec writes it, \<open>P = \<Sum> m v\<close>, in the arithmetic of the machine:
  each term is added to the sum of the terms before it, starting from zero.
\<close>

definition total_momentum :: "rounding \<Rightarrow> World \<Rightarrow> Vec3" where
  "total_momentum r w =
     foldl (\<lambda>P p. add r (scale r (vel p) (mass p)) P)
           \<lparr>vec_x = lit r 0, vec_y = lit r 0, vec_z = lit r 0\<rparr> w"

text \<open>The third power as system.c writes it, \<open>x * x * x\<close>.\<close>

definition cube :: "rounding \<Rightarrow> dbl \<Rightarrow> dbl" where
  "cube r x = dmul r (dmul r x x) x"

text \<open>
  The stacking potential as the spec writes it, \<open>\<epsilon> (\<sigma>\<^sup>1\<^sup>2 / r\<^sup>1\<^sup>2 - 2 \<sigma>\<^sup>6 / r\<^sup>6 + 1)\<close>, as a function
  of \<open>r\<^sup>2\<close>, and the factor \<open>-12 \<epsilon> (\<sigma>\<^sup>1\<^sup>2 / r\<^sup>1\<^sup>4 - \<sigma>\<^sup>6 / r\<^sup>8)\<close> of the stacking force as a function
  of \<open>r\<close>, in the arithmetic of the machine, with \<open>\<epsilon>\<close> = \<^verbatim>\<open>EPSILON\<close> and \<open>\<sigma>\<close> = \<^verbatim>\<open>STACK_SIGMA\<close>.
  \<open>\<sigma>\<^sup>6\<close> is the cube of \<open>\<sigma>\<^sup>2\<close> and \<open>\<sigma>\<^sup>1\<^sup>2\<close> the square of \<open>\<sigma>\<^sup>6\<close>; the powers of \<open>r\<close> are built from
  squares and cubes in the same way.
\<close>

definition sigma6 :: "rounding \<Rightarrow> dbl" where
  "sigma6 r = cube r (dmul r (STACK_SIGMA r) (STACK_SIGMA r))"

definition sigma12 :: "rounding \<Rightarrow> dbl" where
  "sigma12 r = dmul r (sigma6 r) (sigma6 r)"

definition stack_potential :: "rounding \<Rightarrow> dbl \<Rightarrow> dbl" where
  "stack_potential r r2 =
     (let r6 = cube r r2;
          r12 = dmul r r6 r6
      in dmul r (EPSILON r)
           (dadd r (dsub r (ddiv r (sigma12 r) r12) (ddiv r (dmul r (lit r 2) (sigma6 r)) r6))
                   (lit r 1)))"

definition stack_coefficient :: "rounding \<Rightarrow> dbl \<Rightarrow> dbl" where
  "stack_coefficient r d =
     (let d2 = dmul r d d;
          d6 = dmul r (cube r d) (cube r d);
          d8 = dmul r d6 d2;
          d14 = dmul r (dmul r d6 d6) d2
      in dmul r (dmul r (lit r (- 12)) (EPSILON r))
           (dsub r (ddiv r (sigma12 r) d14) (ddiv r (sigma6 r) d8)))"

text \<open>Two bases \<open>2\<^sup>-\<^sup>3\<^sup>1\<close> m apart (about 4.66 angstrom), at rest, with no force on them.\<close>

definition pair0 :: World where
  "pair0 =
     [\<lparr>pos = vec 0 0 0, vel = vec 0 0 0, force = vec 0 0 0, mass = Fin 1\<rparr>,
      \<lparr>pos = vec (1 / 2 ^ 31) 0 0, vel = vec 0 0 0, force = vec 0 0 0, mass = Fin 1\<rparr>]"

text \<open>
  Two bases at the distance \<open>\<sigma>\<close>, the double nearest to \<^verbatim>\<open>3.414e-10\<close>, and two bases a little
  closer, at \<open>\<sigma> (1 - 1983 \<cdot> 2\<^sup>-\<^sup>5\<^sup>2)\<close> rounded to a double.
\<close>

definition pair_sigma :: World where
  "pair_sigma =
     [\<lparr>pos = vec 0 0 0, vel = vec 0 0 0, force = vec 0 0 0, mass = Fin 1\<rparr>,
      \<lparr>pos = vec (3301818198531475 / 2 ^ 83) 0 0, vel = vec 0 0 0, force = vec 0 0 0, mass = Fin 1\<rparr>]"

definition pair_near :: World where
  "pair_near =
     [\<lparr>pos = vec 0 0 0, vel = vec 0 0 0, force = vec 0 0 0, mass = Fin 1\<rparr>,
      \<lparr>pos = vec (3301818198530021 / 2 ^ 83) 0 0, vel = vec 0 0 0, force = vec 0 0 0, mass = Fin 1\<rparr>]"

text \<open>
  One monomer on a straight line: the sugar at the origin, the phosphate at \<open>(0, 1, 5)\<close> and
  the base at \<open>(0, 2, 10)\<close>, so that the two bond vectors from the sugar are parallel.
\<close>

definition colinear1 :: World where
  "colinear1 =
     [\<lparr>pos = vec 0 0 0, vel = vec 0 0 0, force = vec 0 0 0, mass = Fin 1\<rparr>,
      \<lparr>pos = vec 0 2 10, vel = vec 0 0 0, force = vec 0 0 0, mass = Fin 1\<rparr>,
      \<lparr>pos = vec 0 1 5, vel = vec 0 0 0, force = vec 0 0 0, mass = Fin 1\<rparr>]"

text \<open>
  What a force pass leaves alone under every rounding: the velocity and the mass of every
  particle.
\<close>

definition kinematics :: "World \<Rightarrow> (Vec3 \<times> dbl) list" where
  "kinematics w = map (\<lambda>p. (vel p, mass p)) w"




section \<open>Basic facts\<close>

lemma finite_dblE: "finite_dbl d \<Longrightarrow> (\<And>a. d = Fin a \<Longrightarrow> P) \<Longrightarrow> P"
  by (cases d) auto

lemma length2_exact:
  "finite_vec v \<Longrightarrow> length2 exact v = Fin (norm2 v)"
  by (auto simp: finite_vec_def length2_def dot_def norm2_def power2_eq_square
      elim!: finite_dblE)

lemma nan_absorbs [simp]:
  "dadd r a NaN = NaN" "dmul r a NaN = NaN" "ddiv r a NaN = NaN" "dsub r a NaN = NaN"
  "dsub r NaN a = NaN"
  by (cases a; simp add: dsub_def)+

lemma scale_nan [simp]: "scale r v NaN = nan_vec"
  by (simp add: scale_def nan_vec_def)

lemma dot_nan [simp]: "dot r a nan_vec = NaN"
  by (simp add: dot_def nan_vec_def)

lemma comparison_nan [simp]: "\<not> dlt a NaN" "\<not> dle a NaN" "\<not> deq a NaN"
  by (cases a; simp)+

section \<open>Rounding to binary64\<close>

text \<open>
  How \<open>round53\<close> is evaluated: a number \<open>v\<close> of the binade \<open>[2\<^sup>e, 2\<^sup>e\<^sup>+\<^sup>1)\<close>, \<open>e = a - b\<close>, is
  rounded to the multiple \<open>k\<close> of \<open>2\<^sup>e\<^sup>-\<^sup>5\<^sup>2\<close> nearest to it, the even one of the two when \<open>v\<close> lies
  half way.  The lemmas named \<open>r53_n\<close> below are instances: each gives the double that one
  operation of an example delivers.
\<close>

lemma round_even_near:
  assumes "\<bar>y - of_int k\<bar> < 1 / 2"
  shows "round_even y = k"
proof -
  have b: "real_of_int k - 1 / 2 < y" "y < real_of_int k + 1 / 2"
    using assms unfolding abs_less_iff by linarith+
  show ?thesis
  proof (cases "of_int k \<le> y")
    case True
    have "\<lfloor>y\<rfloor> = k"
    proof (rule floor_unique)
      show "of_int k \<le> y" by (rule True)
      show "y < of_int k + 1" using b by linarith
    qed
    then show ?thesis using b by (simp add: round_even_def Let_def)
  next
    case False
    have f: "\<lfloor>y\<rfloor> = k - 1"
    proof (rule floor_unique)
      show "of_int (k - 1) \<le> y" using b by simp
      show "y < of_int (k - 1) + 1" using False by simp
    qed
    have "1 / 2 < y - of_int (k - 1)" using b by simp
    then show ?thesis using f by (simp add: round_even_def Let_def)
  qed
qed

lemma powr_int_diff: "(2::real) powr (of_int (int a - int b)) = 2 ^ a / 2 ^ b"
proof -
  have "(2::real) powr (of_int (int a - int b)) = 2 powr (real a - real b)" by simp
  also have "\<dots> = 2 powr (real a) / 2 powr (real b)" by (rule powr_diff)
  also have "\<dots> = 2 ^ a / 2 ^ b" by (simp add: powr_realpow)
  finally show ?thesis .
qed

lemma round_even_tie:
  assumes "y = of_int k + 1 / 2 \<or> y = of_int k - 1 / 2" "even k"
  shows "round_even y = k"
  using assms(1)
proof
  assume y: "y = of_int k + 1 / 2"
  have "\<lfloor>y\<rfloor> = k" unfolding y by (rule floor_unique) simp_all
  then show ?thesis using assms(2) by (simp add: round_even_def Let_def y)
next
  assume y: "y = of_int k - 1 / 2"
  have "\<lfloor>y\<rfloor> = k - 1" unfolding y by (rule floor_unique) simp_all
  then show ?thesis using assms(2) by (simp add: round_even_def Let_def y)
qed

lemma round_even_close: "\<bar>of_int (round_even y) - y\<bar> \<le> 1 / 2"
proof -
  have "of_int \<lfloor>y\<rfloor> \<le> y" "y < of_int \<lfloor>y\<rfloor> + 1" by linarith+
  then show ?thesis
    by (auto simp: round_even_def Let_def abs_le_iff)
qed

lemma nearest53_binade:
  assumes "2 ^ a / 2 ^ b \<le> \<bar>v\<bar>" "\<bar>v\<bar> < 2 * (2 ^ a / 2 ^ b)"
    and "round_even (v * (2 ^ (b + 52) / 2 ^ a)) = k"
  shows "nearest53 v = of_int k * (2 ^ a / 2 ^ (b + 52))"
proof -
  have pos: "0 < \<bar>v\<bar>"
    using assms(1) by (smt (verit) divide_pos_pos zero_less_power)
  then have nz: "v \<noteq> 0" by simp
  have p2: "(2::real) powr (of_int (int a - int b) + 1) = 2 * (2 ^ a / 2 ^ b)"
    using powr_int_diff [of a b] by (simp add: powr_add)
  have "2 powr (of_int (int a - int b)) \<le> \<bar>v\<bar> \<and> \<bar>v\<bar> < 2 powr (of_int (int a - int b) + 1)"
    unfolding p2 powr_int_diff using assms(1,2) by simp
  then have e: "\<lfloor>log 2 \<bar>v\<bar>\<rfloor> = int a - int b"
    using floor_log_eq_powr_iff [of "\<bar>v\<bar>" 2 "int a - int b"] pos by simp
  have u: "(2::real) powr (of_int (int a - int b) - 52) = 2 ^ a / 2 ^ (b + 52)"
  proof -
    have "of_int (int a - int b) - (52::real) = of_int (int a - int (b + 52))" by simp
    then have "(2::real) powr (of_int (int a - int b) - 52) = 2 powr (of_int (int a - int (b + 52)))"
      by (simp only:)
    then show ?thesis by (simp only: powr_int_diff)
  qed
  have "v / (2 ^ a / 2 ^ (b + 52)) = v * (2 ^ (b + 52) / 2 ^ a)" by simp
  then have "round_even (v / (2 ^ a / 2 ^ (b + 52))) = k"
    using assms(3) by simp
  then show ?thesis
    using nz unfolding nearest53_def e u Let_def by simp
qed

lemma round53_core:
  assumes "2 ^ a / 2 ^ b \<le> \<bar>v\<bar>" "\<bar>v\<bar> < 2 * (2 ^ a / 2 ^ b)"
    and "round_even (v * (2 ^ (b + 52) / 2 ^ a)) = k"
    and "b \<le> a + 1022" "a \<le> b + 1022"
  shows "round53 v = Fin (of_int k * (2 ^ a / 2 ^ (b + 52)))"
proof -
  have n: "nearest53 v = of_int k * (2 ^ a / 2 ^ (b + 52))"
    using assms(1-3) by (rule nearest53_binade)
  have "(2::real) ^ b \<le> 2 ^ (a + 1022)" using assms(4) by (intro power_increasing) simp_all
  then have "(1::real) / 2 ^ 1022 \<le> 2 ^ a / 2 ^ b"
    by (simp add: field_simps power_add)
  then have normal: "\<not> \<bar>v\<bar> < 1 / 2 ^ 1022" using assms(1) by linarith
  have s: "\<bar>v * (2 ^ (b + 52) / 2 ^ a)\<bar> < 2 ^ 53"
  proof -
    have "\<bar>v * (2 ^ (b + 52) / 2 ^ a)\<bar> = \<bar>v\<bar> * (2 ^ (b + 52) / 2 ^ a)"
      by (simp add: abs_mult)
    also have "\<dots> < 2 * (2 ^ a / 2 ^ b) * (2 ^ (b + 52) / 2 ^ a)"
      using assms(2) by (intro mult_strict_right_mono) simp_all
    also have "\<dots> = 2 ^ 53" by (simp add: power_add)
    finally show ?thesis .
  qed
  have "\<bar>real_of_int k\<bar> < 2 ^ 53 + 1"
    using s round_even_close [of "v * (2 ^ (b + 52) / 2 ^ a)"] unfolding assms(3) by argo
  then have "real_of_int \<bar>k\<bar> < real_of_int (2 ^ 53 + 1)" by simp
  then have "\<bar>k\<bar> < 2 ^ 53 + 1" by (simp only: of_int_less_iff)
  then have "\<bar>k\<bar> \<le> 2 ^ 53" by simp
  then have "real_of_int \<bar>k\<bar> \<le> real_of_int (2 ^ 53)" by (simp only: of_int_le_iff)
  then have k: "\<bar>real_of_int k\<bar> \<le> 2 ^ 53" by simp
  have "(2::real) ^ a \<le> 2 ^ (b + 1022)" using assms(5) by (intro power_increasing) simp_all
  then have q: "(2::real) ^ a / 2 ^ (b + 52) \<le> 2 ^ 970"
    by (simp add: field_simps power_add)
  have "\<bar>of_int k * ((2::real) ^ a / 2 ^ (b + 52))\<bar> = \<bar>real_of_int k\<bar> * (2 ^ a / 2 ^ (b + 52))"
    by (simp add: abs_mult)
  also have "\<dots> \<le> 2 ^ 53 * 2 ^ 970"
    using k q by (intro mult_mono) simp_all
  also have "\<dots> \<le> DBL_MAX" by (simp add: DBL_MAX_def)
  finally have "\<not> DBL_MAX < \<bar>of_int k * ((2::real) ^ a / 2 ^ (b + 52))\<bar>" by simp
  then show ?thesis
    using normal by (simp add: round53_def Let_def n)
qed

lemma round53_binade:
  assumes "2 ^ a / 2 ^ b \<le> \<bar>v\<bar>" "\<bar>v\<bar> < 2 * (2 ^ a / 2 ^ b)"
    and "\<bar>v * (2 ^ (b + 52) / 2 ^ a) - of_int k\<bar> < 1 / 2"
    and "b \<le> a + 1022" "a \<le> b + 1022"
  shows "round53 v = Fin (of_int k * (2 ^ a / 2 ^ (b + 52)))"
  using assms(1,2) round_even_near [OF assms(3)] assms(4,5) by (rule round53_core)

lemma round53_tie:
  assumes "2 ^ a / 2 ^ b \<le> \<bar>v\<bar>" "\<bar>v\<bar> < 2 * (2 ^ a / 2 ^ b)"
    and "v * (2 ^ (b + 52) / 2 ^ a) = of_int k + 1 / 2
         \<or> v * (2 ^ (b + 52) / 2 ^ a) = of_int k - 1 / 2" "even k"
    and "b \<le> a + 1022" "a \<le> b + 1022"
  shows "round53 v = Fin (of_int k * (2 ^ a / 2 ^ (b + 52)))"
  using assms(1,2) round_even_tie [OF assms(3,4)] assms(5,6) by (rule round53_core)

lemma round53_zero [simp]: "round53 0 = Fin 0"
  by (simp add: round53_def DBL_MAX_def round_even_def)

lemma round53_sqrt:
  assumes "(2 ^ a / 2 ^ b)\<^sup>2 \<le> X" "X < (2 * (2 ^ a / 2 ^ b))\<^sup>2"
    and "((of_int k - 1 / 2) * (2 ^ a / 2 ^ (b + 52)))\<^sup>2 < X"
    and "X < ((of_int k + 1 / 2) * (2 ^ a / 2 ^ (b + 52)))\<^sup>2"
    and "1 \<le> k" "b \<le> a + 1022" "a \<le> b + 1022"
  shows "round53 (sqrt X) = Fin (of_int k * (2 ^ a / 2 ^ (b + 52)))"
proof -
  have X: "0 \<le> X" using assms(1) by (smt (verit) zero_le_power2)
  have s0: "0 \<le> sqrt X" using X by simp
  have "2 ^ a / 2 ^ b \<le> sqrt X" using assms(1) by (rule real_le_rsqrt)
  then have 1: "2 ^ a / 2 ^ b \<le> \<bar>sqrt X\<bar>" using s0 by simp
  have "sqrt X < 2 * (2 ^ a / 2 ^ b)" using _ assms(2) by (rule real_less_lsqrt) simp
  then have 2: "\<bar>sqrt X\<bar> < 2 * (2 ^ a / 2 ^ b)" using s0 by simp
  have k: "(0::real) \<le> of_int k + 1 / 2" using assms(5) by simp
  have lo: "(of_int k - 1 / 2) * (2 ^ a / 2 ^ (b + 52)) < sqrt X"
    using assms(3) by (rule real_less_rsqrt)
  have hi: "sqrt X < (of_int k + 1 / 2) * (2 ^ a / 2 ^ (b + 52))"
    using _ assms(4) by (rule real_less_lsqrt) (use k in simp)
  have "of_int k - 1 / 2 < sqrt X * (2 ^ (b + 52) / 2 ^ a)"
    using lo by (simp add: field_simps)
  moreover have "sqrt X * (2 ^ (b + 52) / 2 ^ a) < of_int k + 1 / 2"
    using hi by (simp add: field_simps)
  ultimately have 3: "\<bar>sqrt X * (2 ^ (b + 52) / 2 ^ a) - of_int k\<bar> < 1 / 2"
    unfolding abs_less_iff by linarith
  show ?thesis using 1 2 3 assms(6,7) by (rule round53_binade)
qed

lemma round53_int:
  assumes "nat \<bar>k\<bar> < 2 ^ 53"
  shows "round53 (of_int k) = Fin (of_int k)"
proof (cases "k = 0")
  case True
  then show ?thesis by simp
next
  case False
  then have "1 \<le> nat \<bar>k\<bar>" by simp
  then obtain e where e: "2 ^ e \<le> nat \<bar>k\<bar>" "nat \<bar>k\<bar> < 2 ^ (e + 1)"
    using ex_power_ivl1 [of 2 "nat \<bar>k\<bar>"] by auto
  have r: "real (nat \<bar>k\<bar>) = \<bar>real_of_int k\<bar>" by simp
  have lo: "(2::real) ^ e \<le> \<bar>real_of_int k\<bar>"
  proof -
    have "real (2 ^ e) \<le> real (nat \<bar>k\<bar>)" using e(1) by (simp only: of_nat_le_iff)
    then show ?thesis unfolding r by simp
  qed
  have hi: "\<bar>real_of_int k\<bar> < 2 * 2 ^ e"
  proof -
    have "real (nat \<bar>k\<bar>) < real (2 ^ (e + 1))" using e(2) by (simp only: of_nat_less_iff)
    then show ?thesis unfolding r by simp
  qed
  have "(2::nat) ^ e < 2 ^ 53" using e(1) assms by linarith
  then have "e < 53" by (intro power_less_imp_less_exp [of 2]) simp_all
  then have le: "e \<le> 52" by simp
  have s: "(2::real) ^ (0 + 52) / 2 ^ e = 2 ^ (52 - e)"
    using le by (simp add: power_diff)
  have "round53 (of_int k) = Fin (of_int (k * 2 ^ (52 - e)) * (2 ^ e / 2 ^ (0 + 52)))"
  proof (rule round53_binade)
    show "2 ^ e / 2 ^ 0 \<le> \<bar>real_of_int k\<bar>" using lo by simp
    show "\<bar>real_of_int k\<bar> < 2 * (2 ^ e / 2 ^ 0)" using hi by simp
    show "\<bar>real_of_int k * (2 ^ (0 + 52) / 2 ^ e) - real_of_int (k * 2 ^ (52 - e))\<bar> < 1 / 2"
      unfolding s by simp
    show "0 \<le> e + 1022" by simp
    show "e \<le> 0 + 1022" using le by simp
  qed
  also have "of_int (k * 2 ^ (52 - e)) * ((2::real) ^ e / 2 ^ (0 + 52)) = of_int k"
  proof -
    have "(2::real) ^ (52 - e) * 2 ^ e = 2 ^ (52 - e + e)" by (simp only: power_add)
    also have "\<dots> = 2 ^ 52" using le by simp
    finally have p: "(2::real) ^ (52 - e) * 2 ^ e = 2 ^ 52" .
    have "of_int (k * 2 ^ (52 - e)) * ((2::real) ^ e / 2 ^ (0 + 52))
          = of_int k * (2 ^ (52 - e) * 2 ^ e) / 2 ^ 52"
      by simp
    also have "\<dots> = of_int k" unfolding p by simp
    finally show ?thesis .
  qed
  finally show ?thesis .
qed

lemma round53_numeral [simp]:
  "numeral n < (9007199254740992::nat) \<Longrightarrow> round53 (numeral n) = Fin (numeral n)"
  "numeral n < (9007199254740992::nat) \<Longrightarrow> round53 (- numeral n) = Fin (- numeral n)"
  "round53 1 = Fin 1" "round53 (- 1) = Fin (- 1)"
  using round53_int [of "numeral n"] round53_int [of "- numeral n"] round53_int [of 1]
    round53_int [of "- 1"]
  by simp_all

section \<open>Loops over the particle array\<close>

lemma fold_update_each:
  "N \<le> length w \<Longrightarrow>
   fold (\<lambda>i w. w[i := f (w ! i)]) [0 ..< N] w = map f (take N w) @ drop N w"
proof (induction N)
  case 0
  then show ?case by simp
next
  case (Suc N)
  then have lt: "N < length w" by simp
  have "(map f (take N w) @ drop N w)[N := f ((map f (take N w) @ drop N w) ! N)]
        = map f (take (Suc N) w) @ drop (Suc N) w"
    using lt by (simp add: list_update_append nth_append take_Suc_conv_app_nth
        upd_conv_take_nth_drop min_def)
  then show ?case using Suc by simp
qed

lemma fold_update_all:
  "length w = N \<Longrightarrow> fold (\<lambda>i w. w[i := f (w ! i)]) [0 ..< N] w = map f w"
  by (simp add: fold_update_each)

lemma fold_index_foldl:
  "fold (\<lambda>i s. f s (w ! i)) [0 ..< length w] s = foldl f s w"
proof (induction w arbitrary: s rule: rev_induct)
  case Nil
  then show ?case by simp
next
  case (snoc x xs)
  have "fold (\<lambda>i s. f s ((xs @ [x]) ! i)) [0 ..< length xs] s
        = fold (\<lambda>i s. f s (xs ! i)) [0 ..< length xs] s"
    by (rule fold_cong) (simp_all add: nth_append)
  then show ?case using snoc by simp
qed

section \<open>Kinetic energy and temperature\<close>

lemma twiceK_fold:
  assumes "N \<le> length w" "\<forall>i<N. finite_dbl (mass (w ! i)) \<and> finite_vec (vel (w ! i))"
  shows "fold (\<lambda>i twiceK. dadd exact twiceK (dmul exact (mass (w ! i)) (length2 exact (vel (w ! i)))))
              [0 ..< N] (Fin a)
         = Fin (a + (\<Sum>p\<leftarrow>take N w. val (mass p) * norm2 (vel p)))"
  using assms
proof (induction N)
  case 0
  then show ?case by simp
next
  case (Suc N)
  then have fm: "finite_dbl (mass (w ! N))" and fv: "finite_vec (vel (w ! N))" and lt: "N < length w"
    by auto
  obtain b where b: "mass (w ! N) = Fin b" using fm by (rule finite_dblE)
  have "N \<le> length w" "\<forall>i<N. finite_dbl (mass (w ! i)) \<and> finite_vec (vel (w ! i))"
    using Suc.prems by auto
  then show ?case using Suc.IH length2_exact[OF fv] lt b
    by (simp add: take_Suc_conv_app_nth)
qed

lemma kinetic_sum_half:
  "kinetic_sum w = (\<Sum>p\<leftarrow>w. val (mass p) * norm2 (vel p)) / 2"
  unfolding kinetic_sum_def by (induction w) (simp_all add: add_divide_distrib)

lemma kineticEnergy_exact:
  assumes "length w = numParticles cfg" "\<forall>p\<in>set w. finite_dbl (mass p) \<and> finite_vec (vel p)"
  shows "kineticEnergy exact cfg w = Fin (kinetic_sum w)"
proof -
  have "\<forall>i<numParticles cfg. finite_dbl (mass (w ! i)) \<and> finite_vec (vel (w ! i))"
    using assms by auto
  then show ?thesis using assms(1)
    by (simp add: kineticEnergy_def twiceK_fold kinetic_sum_half lit_def)
qed

lemma temperature_exact:
  assumes "allocated cfg w" "\<forall>p\<in>set w. finite_dbl (mass p) \<and> finite_vec (vel p)"
  shows "temperature exact cfg w
         = Fin (2 / (3 * (138065 / 10 ^ 28)) * kinetic_sum w / (3 * real_of_int (numMonomers cfg)))"
  using assms
  by (simp add: temperature_def kineticEnergy_exact allocated_def BOLTZMANN_CONSTANT_def
      lit_def dbl_of_int_def)

lemma dmul_commute: "dmul r a b = dmul r b a"
  by (cases a; cases b) (simp_all add: mult.commute)

lemma kineticEnergy_sum:
  assumes "length w = numParticles cfg"
  shows "kineticEnergy r cfg w = kinetic_energy r w"
  using fold_index_foldl [of "\<lambda>s p. dadd r s (dmul r (mass p) (length2 r (vel p)))" w "lit r 0"]
  by (simp add: kineticEnergy_def kinetic_energy_def assms [symmetric])

text \<open>
  Claim C8.  For every rounding, the temperature the code computes for a world of
  \<open>3 * numMonomers\<close> particles is \<open>(2 / (3 k\<^sub>B)) * K / (3 * numMonomers)\<close>: the operations of this formula, each one rounded,
  on the constant \<open>k\<^sub>B\<close> = \<^verbatim>\<open>1.38065e-23\<close>, the kinetic energy \<open>K\<close> of all \<open>3 * numMonomers\<close>
  particles (half the sum of \<open>m |v|\<^sup>2\<close>) and the number of monomers.  The divisor is three
  times the number of monomers, not three times the number of particles.
\<close>

theorem temperature_formula:
  assumes "length w = numParticles cfg"
  shows "temperature r cfg w
         = ddiv r (dmul r (ddiv r (lit r 2) (dmul r (lit r 3) (lit r (138065 / 10 ^ 28))))
                          (kinetic_energy r w))
                  (dmul r (lit r 3) (dbl_of_int r (numMonomers cfg)))"
  using assms
  by (simp add: temperature_def kineticEnergy_sum BOLTZMANN_CONSTANT_def
      dmul_commute [of r "lit r 3"])

lemma r53_1: "round53 (27613 / 2000000000000000000000000000) = Fin (4698108498893937 / 340282366920938463463374607431768211456)"
  using round53_binade [of 0 76 "27613 / 2000000000000000000000000000" "4698108498893937"] by simp

lemma r53_2: "round53 (14094325496681811 / 340282366920938463463374607431768211456) = Fin (3523581374170453 / 85070591730234615865843651857942052864)"
  using round53_tie [of 0 75 "14094325496681811 / 340282366920938463463374607431768211456" "7047162748340906"] by simp

lemma r53_3: "round53 (170141183460469231731687303715884105728 / 3523581374170453) = Fin 48286435133210197229568"
  using round53_binade [of 75 0 "170141183460469231731687303715884105728 / 3523581374170453" "5756191627169871"] by simp

lemma r53_4: "round53 144859305399630591688704 = Fin 144859305399630583300096"
  using round53_tie [of 76 0 "144859305399630591688704" "8634287440754806"] by simp

lemma r53_5: "round53 (144859305399630583300096 / 3) = Fin 48286435133210197229568"
  using round53_binade [of 75 0 "144859305399630583300096 / 3" "5756191627169871"] by simp

text \<open>
  Under binary64 rounding, one monomer with \<open>K = 3\<close>: the temperature is the double
  \<^verbatim>\<open>0x1.47339cd32504fp+75\<close>, about \<open>4.83e22\<close>.
\<close>

theorem temperature_formula_witness:
  "kinetic_energy round53 moving1 = Fin 3
   \<and> temperature round53 cfg1 moving1 = Fin (11512383254339742 * 2 ^ 22)"
proof -
  have a: "length moving1 = numParticles cfg1"
    by (simp add: cfg1_def moving1_def numParticles_def)
  have k: "kinetic_energy round53 moving1 = Fin 3"
    by (simp add: kinetic_energy_def moving1_def length2_def dot_def lit_def vec_def)
  show ?thesis
    using temperature_formula [OF a, of round53]
    by (simp add: k cfg1_def lit_def dbl_of_int_def
        r53_1 r53_2 r53_3 r53_4 r53_5)
qed

section \<open>Thermostat\<close>

lemma thermostat_map:
  assumes "length w = numParticles cfg" "\<not> dle (thermostatTau cfg) (lit r 0)"
  shows "thermostat r cfg w = map (\<lambda>p. p\<lparr>vel := scale r (vel p) (thermostat_lambda r cfg w)\<rparr>) w"
  using assms
  by (simp add: thermostat_def Let_def
      fold_update_all [where f = "\<lambda>p. p\<lparr>vel := scale r (vel p) (thermostat_lambda r cfg w)\<rparr>"])

text \<open>
  Claim C5.  For every rounding, the thermostat returns the world unchanged when
  \<open>thermostatTau <= 0\<close>.  Otherwise it replaces the velocity of every particle by its product
  with one factor \<open>lambda\<close>, computed once from the world it is given, and changes no other
  field.  The factor is \<open>sqrt (1 + dt / tau * (T0 / T\<^sub>k - 1))\<close>: the operations of this
  formula, each one rounded, on the time step, the relaxation time, the target temperature
  and the instantaneous temperature \<open>T\<^sub>k\<close> of the world.
\<close>

theorem thermostat_rescale:
  assumes "length w = numParticles cfg"
  shows "(dle (thermostatTau cfg) (lit r 0) \<longrightarrow> thermostat r cfg w = w)
       \<and> (\<not> dle (thermostatTau cfg) (lit r 0) \<longrightarrow>
            thermostat r cfg w
            = map (\<lambda>p. p\<lparr>vel := scale r (vel p) (thermostat_lambda r cfg w)\<rparr>) w)
       \<and> thermostat_lambda r cfg w
         = dsqrt r (dadd r (lit r 1)
             (dmul r (ddiv r (timeStep cfg) (thermostatTau cfg))
                (dsub r (ddiv r (thermostatTemp cfg) (temperature r cfg w)) (lit r 1))))"
proof (intro conjI impI)
  assume "dle (thermostatTau cfg) (lit r 0)"
  then show "thermostat r cfg w = w" by (simp add: thermostat_def)
next
  assume "\<not> dle (thermostatTau cfg) (lit r 0)"
  with assms show "thermostat r cfg w
            = map (\<lambda>p. p\<lparr>vel := scale r (vel p) (thermostat_lambda r cfg w)\<rparr>) w"
    by (rule thermostat_map)
next
  show "thermostat_lambda r cfg w
         = dsqrt r (dadd r (lit r 1)
             (dmul r (ddiv r (timeStep cfg) (thermostatTau cfg))
                (dsub r (ddiv r (thermostatTemp cfg) (temperature r cfg w)) (lit r 1))))"
    by (simp add: thermostat_lambda_def Let_def)
qed

lemma temperature_moving1:
  "temperature round53 cfg1 moving1 = Fin (11512383254339742 * 2 ^ 22)"
  "temperature round53 (cfg1\<lparr>thermostatTemp := Fin (2 ^ 77)\<rparr>) moving1 = Fin (11512383254339742 * 2 ^ 22)"
  by (simp_all add: temperature_def kineticEnergy_def numParticles_def cfg1_def moving1_def
      BOLTZMANN_CONSTANT_def lit_def dbl_of_int_def length2_def dot_def vec_def numeral_3_eq_3
      r53_1 r53_2 r53_3 r53_4 r53_5)

lemma r53_6: "round53 (25 / 4023869594434183102464) = Fin (8258393845711999 / 1329227995784915872903807060280344576)"
  using round53_binade [of 0 68 "25 / 4023869594434183102464" "8258393845711999"] by simp

lemma r53_7: "round53 (- (1329227995784915872895548666434632577 / 1329227995784915872903807060280344576)) = Fin (- 1)"
  using round53_binade [of 0 1 "- (1329227995784915872895548666434632577 / 1329227995784915872903807060280344576)" "- 9007199254740992"] by simp

lemma r53_8: "round53 (18014398509481984 / 5756191627169871) = Fin (3523581374170453 / 1125899906842624)"
  using round53_binade [of 1 0 "18014398509481984 / 5756191627169871" "7047162748340906"] by simp

lemma r53_9: "round53 (2397681467327829 / 1125899906842624) = Fin (2397681467327829 / 1125899906842624)"
  using round53_binade [of 1 0 "2397681467327829 / 1125899906842624" "4795362934655658"] by simp

lemma r53_10: "round53 (3523581374170453 / 1125899906842624) = Fin (3523581374170453 / 1125899906842624)"
  using round53_binade [of 1 0 "3523581374170453 / 1125899906842624" "7047162748340906"] by simp

lemma r53_11: "round53 (sqrt (3523581374170453 / 1125899906842624)) = Fin (3983566211791097 / 2251799813685248)"
  using round53_sqrt [of 0 0 "3523581374170453 / 1125899906842624" "7967132423582194"] by (simp add: power2_eq_square)

lemma r53_12: "round53 (3983566211791097 / 2251799813685248) = Fin (3983566211791097 / 2251799813685248)"
  using round53_binade [of 0 0 "3983566211791097 / 2251799813685248" "7967132423582194"] by simp

lemma r53_13: "round53 (- (3983566211791097 / 1125899906842624)) = Fin (- (3983566211791097 / 1125899906842624))"
  using round53_binade [of 1 0 "- (3983566211791097 / 1125899906842624)" "- 7967132423582194"] by simp

text \<open>
  Under binary64 rounding, on one monomer whose temperature is about \<open>4.83e22\<close>.  With the
  target \<open>T0 = 2\<^sup>7\<^sup>7\<close> the factor is the double \<^verbatim>\<open>0x1.c4e1091fc71f2p+0\<close>, about \<open>1.76906\<close>.  With the
  target \<open>T0 = 300\<close> the quotient \<open>T0 / T\<^sub>k\<close> is so small that \<open>T0 / T\<^sub>k - 1\<close> rounds to
  \<open>-1\<close>: the factor is zero, and the thermostat stops every particle.
\<close>

theorem thermostat_rescale_witness:
  "thermostat round53 (cfg1\<lparr>thermostatTau := Fin 0\<rparr>) moving1 = moving1
   \<and> thermostat_lambda round53 (cfg1\<lparr>thermostatTemp := Fin (2 ^ 77)\<rparr>) moving1 = Fin (3983566211791097 / 2 ^ 51)
   \<and> thermostat round53 (cfg1\<lparr>thermostatTemp := Fin (2 ^ 77)\<rparr>) moving1
     = [\<lparr>pos = vec 0 0 0, vel = vec (3983566211791097 / 2 ^ 51) 0 0, force = vec 0 0 0, mass = Fin 2\<rparr>,
        \<lparr>pos = vec 1 0 0, vel = vec 0 (- (3983566211791097 / 2 ^ 50)) 0, force = vec 0 0 0, mass = Fin 1\<rparr>,
        \<lparr>pos = vec 0 1 0, vel = vec 0 0 0, force = vec 0 0 0, mass = Fin 3\<rparr>]
   \<and> thermostat_lambda round53 cfg1 moving1 = Fin 0
   \<and> thermostat round53 cfg1 moving1
     = [\<lparr>pos = vec 0 0 0, vel = vec 0 0 0, force = vec 0 0 0, mass = Fin 2\<rparr>,
        \<lparr>pos = vec 1 0 0, vel = vec 0 0 0, force = vec 0 0 0, mass = Fin 1\<rparr>,
        \<lparr>pos = vec 0 1 0, vel = vec 0 0 0, force = vec 0 0 0, mass = Fin 3\<rparr>]"
proof -
  have l: "length moving1 = numParticles cfg1"
    "length moving1 = numParticles (cfg1\<lparr>thermostatTau := Fin 0\<rparr>)"
    "length moving1 = numParticles (cfg1\<lparr>thermostatTemp := Fin (2 ^ 77)\<rparr>)"
    by (simp_all add: cfg1_def moving1_def numParticles_def)
  have 1: "thermostat round53 (cfg1\<lparr>thermostatTau := Fin 0\<rparr>) moving1 = moving1"
    using thermostat_rescale [OF l(2), of round53] by (simp add: lit_def)
  have h: "thermostat_lambda round53 (cfg1\<lparr>thermostatTemp := Fin (2 ^ 77)\<rparr>) moving1 = Fin (3983566211791097 / 2 ^ 51)"
    using thermostat_rescale [OF l(3), of round53] unfolding temperature_moving1
    by (simp add: cfg1_def lit_def dsub_def
        r53_6 r53_7 r53_8 r53_9 r53_10 r53_11 r53_12 r53_13)
  have c: "thermostat_lambda round53 cfg1 moving1 = Fin 0"
    using thermostat_rescale [OF l(1), of round53] unfolding temperature_moving1
    by (simp add: cfg1_def lit_def dsub_def
        r53_6 r53_7 r53_8 r53_9 r53_10 r53_11 r53_12 r53_13)
  have 2: "thermostat round53 (cfg1\<lparr>thermostatTemp := Fin (2 ^ 77)\<rparr>) moving1
     = [\<lparr>pos = vec 0 0 0, vel = vec (3983566211791097 / 2 ^ 51) 0 0, force = vec 0 0 0, mass = Fin 2\<rparr>,
        \<lparr>pos = vec 1 0 0, vel = vec 0 (- (3983566211791097 / 2 ^ 50)) 0, force = vec 0 0 0, mass = Fin 1\<rparr>,
        \<lparr>pos = vec 0 1 0, vel = vec 0 0 0, force = vec 0 0 0, mass = Fin 3\<rparr>]"
    using thermostat_rescale [OF l(3), of round53] unfolding h
    by (simp add: cfg1_def lit_def moving1_def scale_def vec_def
        r53_6 r53_7 r53_8 r53_9 r53_10 r53_11 r53_12 r53_13)
  have 3: "thermostat round53 cfg1 moving1
     = [\<lparr>pos = vec 0 0 0, vel = vec 0 0 0, force = vec 0 0 0, mass = Fin 2\<rparr>,
        \<lparr>pos = vec 1 0 0, vel = vec 0 0 0, force = vec 0 0 0, mass = Fin 1\<rparr>,
        \<lparr>pos = vec 0 1 0, vel = vec 0 0 0, force = vec 0 0 0, mass = Fin 3\<rparr>]"
    using thermostat_rescale [OF l(1), of round53] unfolding c
    by (simp add: cfg1_def lit_def moving1_def scale_def vec_def)
  show ?thesis using 1 h 2 c 3 by blast
qed

section \<open>The thermostat at zero temperature\<close>

lemma inf_of_sign_not_finite [simp]: "\<not> finite_dbl (inf_of_sign s)"
  by (cases s) auto

lemma ddiv_zero_not_finite: "\<not> finite_dbl (ddiv r a (Fin 0))"
  by (cases a) (auto simp: )

lemma dadd_not_finite: "\<not> finite_dbl b \<Longrightarrow> \<not> finite_dbl (dadd r a b)"
  by (cases a; cases b) auto

lemma dsub_not_finite_left: "\<not> finite_dbl a \<Longrightarrow> \<not> finite_dbl (dsub r a b)"
  by (cases a; cases b) (auto simp: dsub_def)

lemma dmul_not_finite: "\<not> finite_dbl b \<Longrightarrow> \<not> finite_dbl (dmul r a b)"
  by (cases a; cases b) (auto split: if_splits)

lemma dsqrt_not_finite: "\<not> finite_dbl a \<Longrightarrow> \<not> finite_dbl (dsqrt r a)"
  by (cases a) auto

lemma dmul_zero_not_finite: "\<not> finite_dbl b \<Longrightarrow> dmul r (Fin 0) b = NaN"
  by (cases b) auto

lemma thermostat_lambda_at_zero:
  assumes "temperature r cfg w = Fin 0"
  shows "\<not> finite_dbl (thermostat_lambda r cfg w)"
  unfolding thermostat_lambda_def Let_def assms
  by (intro dsqrt_not_finite dadd_not_finite dmul_not_finite dsub_not_finite_left
      ddiv_zero_not_finite)

text \<open>
  Claim C3, as the code has it.  The thermostat has no error path.  When it is enabled and
  the instantaneous temperature is exactly zero, it divides by it: the scale factor is an
  infinity or a NaN, every velocity component of every particle of the world it returns is
  an infinity or a NaN, and a component that was zero (a frozen system) is a NaN.  This
  holds for every rounding.
\<close>

theorem thermostat_zero_temperature:
  assumes "length w = numParticles cfg" "\<not> dle (thermostatTau cfg) (lit r 0)"
    and "temperature r cfg w = Fin 0" "i < length w"
  shows "\<not> finite_dbl (thermostat_lambda r cfg w)
       \<and> \<not> finite_dbl (vec_x (vel (thermostat r cfg w ! i)))
       \<and> \<not> finite_dbl (vec_y (vel (thermostat r cfg w ! i)))
       \<and> \<not> finite_dbl (vec_z (vel (thermostat r cfg w ! i)))
       \<and> (vel (w ! i) = vec 0 0 0 \<longrightarrow> vel (thermostat r cfg w ! i) = nan_vec)
       \<and> pos (thermostat r cfg w ! i) = pos (w ! i)
       \<and> mass (thermostat r cfg w ! i) = mass (w ! i)"
proof -
  have nf: "\<not> finite_dbl (thermostat_lambda r cfg w)"
    using assms(3) by (rule thermostat_lambda_at_zero)
  have m: "thermostat r cfg w ! i = (w ! i)\<lparr>vel := scale r (vel (w ! i)) (thermostat_lambda r cfg w)\<rparr>"
    using thermostat_map [OF assms(1,2)] assms(4) by simp
  show ?thesis
    using nf by (simp add: m scale_def dmul_not_finite dmul_zero_not_finite vec_def nan_vec_def)
qed

theorem thermostat_zero_temperature_witness:
  "\<not> finite_dbl (thermostat_lambda exact cfg1 frozen1)
   \<and> vel (thermostat exact cfg1 frozen1 ! 0) = nan_vec
   \<and> pos (thermostat exact cfg1 frozen1 ! 0) = vec 0 0 0"
proof -
  have l: "length frozen1 = numParticles cfg1"
    by (simp add: cfg1_def frozen1_def numParticles_def)
  have e: "\<not> dle (thermostatTau cfg1) (lit exact 0)"
    by (simp add: cfg1_def lit_def)
  have a: "allocated cfg1 frozen1"
    by (simp add: allocated_def cfg1_def frozen1_def numParticles_def)
  have f: "\<forall>p\<in>set frozen1. finite_dbl (mass p) \<and> finite_vec (vel p)"
    by (simp add: frozen1_def finite_vec_def vec_def)
  have k: "kinetic_sum frozen1 = 0"
    by (simp add: kinetic_sum_def frozen1_def norm2_def vec_def)
  have t: "temperature exact cfg1 frozen1 = Fin 0"
    using temperature_exact [OF a f] by (simp add: k cfg1_def)
  have i: "0 < length frozen1" by (simp add: frozen1_def)
  show ?thesis
    using thermostat_zero_temperature [OF l e t i] by (simp add: frozen1_def)
qed

lemma physicsCheck_after_frozen:
  "physicsCheck exact cfg1
     [\<lparr>pos = vec 0 0 0, vel = nan_vec, force = vec 0 0 0, mass = Fin 2\<rparr>,
      \<lparr>pos = vec 1 0 0, vel = nan_vec, force = vec 0 0 0, mass = Fin 1\<rparr>,
      \<lparr>pos = vec 0 1 0, vel = nan_vec, force = vec 0 0 0, mass = Fin 3\<rparr>] = (True, [])"
  by (simp add: physicsCheck_def momentum_def numParticles_def cfg1_def Let_def nan_vec_def
      scale_def add_def lit_def length_vec_def length2_def dot_def dgt_def dbl_of_int_def
      numeral_3_eq_3)

text \<open>
  The claim as stated fails on a frozen system: the thermostat is enabled, the temperature
  is zero, and the call returns a world, every velocity of which is a NaN vector.  The
  invariant check that follows it in \<^verbatim>\<open>stepWorld\<close> passes on that world, since no
  comparison with a NaN holds.
\<close>

theorem thermostat_frozen_counterexample:
  "dlt (Fin 0) (thermostatTau cfg1)
   \<and> dle (temperature exact cfg1 frozen1) (Fin 0)
   \<and> thermostat exact cfg1 frozen1
     = [\<lparr>pos = vec 0 0 0, vel = nan_vec, force = vec 0 0 0, mass = Fin 2\<rparr>,
        \<lparr>pos = vec 1 0 0, vel = nan_vec, force = vec 0 0 0, mass = Fin 1\<rparr>,
        \<lparr>pos = vec 0 1 0, vel = nan_vec, force = vec 0 0 0, mass = Fin 3\<rparr>]
   \<and> physicsCheck exact cfg1 (thermostat exact cfg1 frozen1) = (True, [])"
proof -
  have l: "length frozen1 = numParticles cfg1"
    by (simp add: cfg1_def frozen1_def numParticles_def)
  have e: "\<not> dle (thermostatTau cfg1) (lit exact 0)"
    by (simp add: cfg1_def lit_def)
  have a: "allocated cfg1 frozen1"
    by (simp add: allocated_def cfg1_def frozen1_def numParticles_def)
  have f: "\<forall>p\<in>set frozen1. finite_dbl (mass p) \<and> finite_vec (vel p)"
    by (simp add: frozen1_def finite_vec_def vec_def)
  have k: "kinetic_sum frozen1 = 0"
    by (simp add: kinetic_sum_def frozen1_def norm2_def vec_def)
  have t: "temperature exact cfg1 frozen1 = Fin 0"
    using temperature_exact [OF a f] by (simp add: k cfg1_def)
  have lam: "thermostat_lambda exact cfg1 frozen1 = PInf"
    unfolding thermostat_lambda_def Let_def t by (simp add: cfg1_def lit_def dsub_def)
  have th: "thermostat exact cfg1 frozen1
     = [\<lparr>pos = vec 0 0 0, vel = nan_vec, force = vec 0 0 0, mass = Fin 2\<rparr>,
        \<lparr>pos = vec 1 0 0, vel = nan_vec, force = vec 0 0 0, mass = Fin 1\<rparr>,
        \<lparr>pos = vec 0 1 0, vel = nan_vec, force = vec 0 0 0, mass = Fin 3\<rparr>]"
    by (simp add: thermostat_map [OF l e] lam) (simp add: frozen1_def scale_def vec_def nan_vec_def)
  have "dlt (Fin 0) (thermostatTau cfg1)" by (simp add: cfg1_def)
  moreover have "dle (temperature exact cfg1 frozen1) (Fin 0)" by (simp add: t)
  ultimately show ?thesis
    unfolding th using physicsCheck_after_frozen by simp
qed

section \<open>Momentum and the invariant check\<close>

lemma finite_vecE:
  "finite_vec v \<Longrightarrow> (\<And>a b c. v = vec a b c \<Longrightarrow> P) \<Longrightarrow> P"
proof -
  assume f: "finite_vec v" and r: "\<And>a b c. v = vec a b c \<Longrightarrow> P"
  from f obtain a b c where "vec_x v = Fin a" "vec_y v = Fin b" "vec_z v = Fin c"
    by (auto simp: finite_vec_def elim!: finite_dblE)
  then have "v = vec a b c" by (simp add: vec_def)
  then show P by (rule r)
qed

lemma vec_sel [simp]:
  "vec_x (vec a b c) = Fin a" "vec_y (vec a b c) = Fin b" "vec_z (vec a b c) = Fin c"
  by (simp_all add: vec_def)

lemma vec_eq_iff [simp]: "vec a b c = vec a' b' c' \<longleftrightarrow> a = a' \<and> b = b' \<and> c = c'"
  by (auto simp: vec_def)

lemma finite_vec_vec [simp]: "finite_vec (vec a b c)"
  by (simp add: finite_vec_def)

lemma norm2_vec [simp]: "norm2 (vec a b c) = a\<^sup>2 + b\<^sup>2 + c\<^sup>2"
  by (simp add: norm2_def)

lemma exact_vec_ops [simp]:
  "add exact (vec a b c) (vec a' b' c') = vec (a + a') (b + b') (c + c')"
  "sub exact (vec a b c) (vec a' b' c') = vec (a - a') (b - b') (c - c')"
  "scale exact (vec a b c) (Fin l) = vec (a * l) (b * l) (c * l)"
  "dot exact (vec a b c) (vec a' b' c') = Fin (a * a' + b * b' + c * c')"
  "length2 exact (vec a b c) = Fin (a * a + b * b + c * c)"
  "length_vec exact (vec a b c) = Fin (sqrt (a * a + b * b + c * c))"
  by (simp_all add: add_def sub_def scale_def dot_def length2_def length_vec_def vec_def
      dsub_def not_less add_nonneg_nonneg)

lemma momentum_sum:
  assumes "length w = numParticles cfg"
  shows "momentum r cfg w = total_momentum r w"
  using fold_index_foldl [of "\<lambda>P p. add r (scale r (vel p) (mass p)) P" w
      "\<lparr>vec_x = lit r 0, vec_y = lit r 0, vec_z = lit r 0\<rparr>"]
  by (simp add: momentum_def total_momentum_def assms [symmetric])

text \<open>
  Claim C9.  For every rounding, \<^verbatim>\<open>physicsCheck\<close> on a world of \<open>3 * numMonomers\<close> particles
  computes the total momentum \<open>P\<close> of all particles and the momentum per monomer \<open>|P| / numMonomers\<close>.  It
  returns false and writes one message, which carries that number, exactly when the number
  it computed is greater than \<^verbatim>\<open>1e-20\<close>; otherwise it returns true and writes nothing.  It
  is a function of the world and does not change it.  A momentum per monomer that is a NaN
  is not greater than the threshold, so the check passes on it.
\<close>

theorem physicsCheck_threshold:
  assumes "length w = numParticles cfg"
  shows "physicsCheck r cfg w
         = (let PPM = ddiv r (length_vec r (total_momentum r w)) (dbl_of_int r (numMonomers cfg))
            in if dgt PPM (lit r (1 / 10 ^ 20)) then (False, [MomentumViolated PPM])
               else (True, []))
       \<and> (ddiv r (length_vec r (total_momentum r w)) (dbl_of_int r (numMonomers cfg)) = NaN
            \<longrightarrow> physicsCheck r cfg w = (True, []))"
  by (simp add: physicsCheck_def momentum_sum [OF assms] Let_def dgt_def)

lemma r53_14: "round53 (sqrt 8) = Fin (6369051672525773 / 2251799813685248)"
  using round53_sqrt [of 1 0 "8" "6369051672525773"] by (simp add: power2_eq_square)

lemma r53_15: "round53 (6369051672525773 / 2251799813685248) = Fin (6369051672525773 / 2251799813685248)"
  using round53_binade [of 1 0 "6369051672525773 / 2251799813685248" "6369051672525773"] by simp

lemma r53_16: "round53 (1 / 100000000000000000000) = Fin (6646139978924579 / 664613997892457936451903530140172288)"
  using round53_binade [of 0 67 "1 / 100000000000000000000" "6646139978924579"] by simp

text \<open>
  Under binary64 rounding: a world of momentum \<open>(2, -2, 0)\<close> fails the check with the
  message \<open>|P| = sqrt 8\<close> rounded, the double \<^verbatim>\<open>0x1.6a09e667f3bcdp+1\<close>; a world at rest passes.
\<close>

theorem physicsCheck_threshold_witness:
  "total_momentum round53 moving1 = vec 2 (- 2) 0
   \<and> physicsCheck round53 cfg1 moving1 = (False, [MomentumViolated (Fin (6369051672525773 / 2 ^ 51))])
   \<and> physicsCheck round53 cfg1 frozen1 = (True, [])"
proof -
  have a: "length moving1 = numParticles cfg1" "length frozen1 = numParticles cfg1"
    by (simp_all add: cfg1_def moving1_def frozen1_def numParticles_def)
  have m: "total_momentum round53 moving1 = vec 2 (- 2) 0"
    by (simp add: total_momentum_def moving1_def scale_def add_def lit_def vec_def)
  have f: "total_momentum round53 frozen1 = vec 0 0 0"
    by (simp add: total_momentum_def frozen1_def scale_def add_def lit_def vec_def)
  have 1: "physicsCheck round53 cfg1 moving1 = (False, [MomentumViolated (Fin (6369051672525773 / 2 ^ 51))])"
    using physicsCheck_threshold [OF a(1), of round53] unfolding m
    by (simp add: cfg1_def Let_def length_vec_def length2_def dot_def dgt_def lit_def
        dbl_of_int_def vec_def
        r53_14 r53_15 r53_16)
  have 2: "physicsCheck round53 cfg1 frozen1 = (True, [])"
    using physicsCheck_threshold [OF a(2), of round53] unfolding f
    by (simp add: cfg1_def Let_def length_vec_def length2_def dot_def dgt_def lit_def
        dbl_of_int_def vec_def
        r53_14 r53_15 r53_16)
  show ?thesis using m 1 2 by blast
qed

section \<open>Stacking\<close>

lemma Vstack_potential:
  "Vstack r p1 p2 = stack_potential r (distance2 r (pos p1) (pos p2))"
  by (simp add: Vstack_def stack_potential_def sigma6_def sigma12_def cube_def BOND_STACK_def
      Let_def)

lemma Fstack_coefficient:
  "Fstack r i j w
   = (let d = sub r (pos (w ! j)) (pos (w ! i));
          F = scale r d (stack_coefficient r (length_vec r d))
      in if deq (length_vec r d) (lit r 0) then Inl AssertionFailed
         else Inr (add_force r j (vneg F) (add_force r i F w)))"
  by (simp add: Fstack_def stack_coefficient_def sigma6_def sigma12_def cube_def BOND_STACK_def
      Let_def add_force_def sub_def add_def vneg_def dsub_def dne_def)

text \<open>
  Claim C6, as the code has it.  For every rounding, \<^verbatim>\<open>Vstack\<close> is the potential
  \<open>\<epsilon> (\<sigma>\<^sup>1\<^sup>2 / r\<^sup>1\<^sup>2 - 2 \<sigma>\<^sup>6 / r\<^sup>6 + 1)\<close> computed from the squared distance of the two particles.
  \<^verbatim>\<open>Fstack\<close> fails its assertion when the distance it computes is zero.  Otherwise it adds
  to the force of the first particle the vector \<open>F\<close>, the separation vector \<open>pos\<^sub>2 - pos\<^sub>1\<close>
  multiplied by \<open>-12 \<epsilon> (\<sigma>\<^sup>1\<^sup>2 / r\<^sup>1\<^sup>4 - \<sigma>\<^sup>6 / r\<^sup>8)\<close>, and the opposite of \<open>F\<close> to the force of the
  second.  That number is the factor of the separation vector, not the magnitude of the
  force: the magnitude is \<open>r\<close> times its absolute value.
\<close>

theorem stacking_potential_and_force:
  "Vstack r p1 p2 = stack_potential r (distance2 r (pos p1) (pos p2))
   \<and> Fstack r i j w
     = (let d = sub r (pos (w ! j)) (pos (w ! i));
            F = scale r d (stack_coefficient r (length_vec r d))
        in if deq (length_vec r d) (lit r 0) then Inl AssertionFailed
           else Inr (add_force r j (vneg F) (add_force r i F w)))"
  by (simp add: Vstack_potential Fstack_coefficient)

lemma r53_17: "round53 (1 / 2147483648) = Fin (1 / 2147483648)"
  using round53_binade [of 0 31 "1 / 2147483648" "4503599627370496"] by simp

lemma r53_18: "round53 (1 / 4611686018427387904) = Fin (1 / 4611686018427387904)"
  using round53_binade [of 0 62 "1 / 4611686018427387904" "4503599627370496"] by simp

lemma r53_19: "round53 (sqrt (1 / 4611686018427387904)) = Fin (1 / 2147483648)"
  using round53_sqrt [of 0 31 "1 / 4611686018427387904" "4503599627370496"] by (simp add: power2_eq_square)

lemma r53_20: "round53 (- (1 / 2147483648)) = Fin (- (1 / 2147483648))"
  using round53_binade [of 0 31 "- (1 / 2147483648)" "- 4503599627370496"] by simp

lemma r53_21: "round53 (1 / 21267647932558653966460912964485513216) = Fin (1 / 21267647932558653966460912964485513216)"
  using round53_binade [of 0 124 "1 / 21267647932558653966460912964485513216" "4503599627370496"] by simp

lemma r53_22: "round53 (1 / 98079714615416886934934209737619787751599303819750539264) = Fin (1 / 98079714615416886934934209737619787751599303819750539264)"
  using round53_binade [of 0 186 "1 / 98079714615416886934934209737619787751599303819750539264" "4503599627370496"] by simp

lemma r53_23: "round53 (1 / 9619630419041620901435312524449124464130795720328478190417063819395928166869436184427311097384012607618805661696) = Fin (1 / 9619630419041620901435312524449124464130795720328478190417063819395928166869436184427311097384012607618805661696)"
  using round53_binade [of 0 372 "1 / 9619630419041620901435312524449124464130795720328478190417063819395928166869436184427311097384012607618805661696" "4503599627370496"] by simp

lemma r53_24: "round53 (1707 / 5000000000000) = Fin (3301818198531475 / 9671406556917033397649408)"
  using round53_binade [of 0 32 "1707 / 5000000000000" "6603636397062950"] by simp

lemma r53_25: "round53 (10902003416153634857846565675625 / 93536104789177786765035829293842113257979682750464) = Fin (4841462082862351 / 41538374868278621028243970633760768)"
  using round53_binade [of 0 63 "10902003416153634857846565675625 / 93536104789177786765035829293842113257979682750464" "4841462082862351"] by simp

lemma r53_26: "round53 (23439755099793854060493213247201 / 1725436586697640946858688965569256363112777243042596638790631055949824) = Fin (2602335580336607 / 191561942608236107294793378393788647952342390272950272)"
  using round53_binade [of 0 126 "23439755099793854060493213247201 / 1725436586697640946858688965569256363112777243042596638790631055949824" "5204671160673214"] by simp

lemma r53_27: "round53 (12599109039083274277074627383057 / 7957171782556586274486115970349133441607298412757563479047423630290551952200534008528896) = Fin (5595128377981273 / 3533694129556768659166595001485837031654967793751237916243212402585239552)"
  using round53_binade [of 0 189 "12599109039083274277074627383057 / 7957171782556586274486115970349133441607298412757563479047423630290551952200534008528896" "5595128377981273"] by simp

lemma r53_28: "round53 (31305461566091350945730738700529 / 12486994201263968925526388919172665222994392570659884603436627838501486955279062480481224412253967884639307724485626491581791902717153141225160704) = Fin (3475604422719253 / 1386334847060407429789207092071541851718218537687908287585239790307310653902812811519987203052069789048695605480701785914487078912)"
  using round53_binade [of 0 378 "31305461566091350945730738700529 / 12486994201263968925526388919172665222994392570659884603436627838501486955279062480481224412253967884639307724485626491581791902717153141225160704" "6951208845438506"] by simp

lemma r53_29: "round53 (181 / 100000000000000000000000) = Fin (4811805344741395 / 2658455991569831745807614120560689152)"
  using round53_binade [of 0 69 "181 / 100000000000000000000000" "4811805344741395"] by simp

lemma r53_30: "round53 (3475604422719253 / 144115188075855872) = Fin (3475604422719253 / 144115188075855872)"
  using round53_binade [of 0 6 "3475604422719253 / 144115188075855872" "6951208845438506"] by simp

lemma r53_31: "round53 (5595128377981273 / 1766847064778384329583297500742918515827483896875618958121606201292619776) = Fin (5595128377981273 / 1766847064778384329583297500742918515827483896875618958121606201292619776)"
  using round53_binade [of 0 188 "5595128377981273 / 1766847064778384329583297500742918515827483896875618958121606201292619776" "5595128377981273"] by simp

lemma r53_32: "round53 (5595128377981273 / 18014398509481984) = Fin (5595128377981273 / 18014398509481984)"
  using round53_binade [of 0 2 "5595128377981273 / 18014398509481984" "5595128377981273"] by simp

lemma r53_33: "round53 (- (41285422601130931 / 144115188075855872)) = Fin (- (2580338912570683 / 9007199254740992))"
  using round53_binade [of 0 2 "- (41285422601130931 / 144115188075855872)" "- 5160677825141366"] by simp

lemma r53_34: "round53 (6426860342170309 / 9007199254740992) = Fin (6426860342170309 / 9007199254740992)"
  using round53_binade [of 0 1 "6426860342170309 / 9007199254740992" "6426860342170309"] by simp

lemma r53_35: "round53 (30924800944361603527714652241055 / 23945242826029513411849172299223580994042798784118784) = Fin (6866685208076007 / 5316911983139663491615228241121378304)"
  using round53_binade [of 0 70 "30924800944361603527714652241055 / 23945242826029513411849172299223580994042798784118784" "6866685208076007"] by simp

lemma r53_36: "round53 (1 / 9903520314283042199192993792) = Fin (1 / 9903520314283042199192993792)"
  using round53_binade [of 0 93 "1 / 9903520314283042199192993792" "4503599627370496"] by simp

lemma r53_37: "round53 (1 / 452312848583266388373324160190187140051835877600158453279131187530910662656) = Fin (1 / 452312848583266388373324160190187140051835877600158453279131187530910662656)"
  using round53_binade [of 0 248 "1 / 452312848583266388373324160190187140051835877600158453279131187530910662656" "4503599627370496"] by simp

lemma r53_38: "round53 (1 / 44362715105933037753254626946289339254982993206013065202727673289833940924890009968639590497666233249558259375382457149263586525184) = Fin (1 / 44362715105933037753254626946289339254982993206013065202727673289833940924890009968639590497666233249558259375382457149263586525184)"
  using round53_binade [of 0 434 "1 / 44362715105933037753254626946289339254982993206013065202727673289833940924890009968639590497666233249558259375382457149263586525184" "4503599627370496"] by simp

lemma r53_39: "round53 (- (14435416034224185 / 664613997892457936451903530140172288)) = Fin (- (1804427004278023 / 83076749736557242056487941267521536))"
  using round53_tie [of 0 66 "- (14435416034224185 / 664613997892457936451903530140172288)" "- 7217708017112092"] by simp

lemma r53_40: "round53 111219341527016096 = Fin 111219341527016096"
  using round53_binade [of 56 0 "111219341527016096" "6951208845438506"] by simp

lemma r53_41: "round53 716176432381602944 = Fin 716176432381602944"
  using round53_binade [of 59 0 "716176432381602944" "5595128377981273"] by simp

lemma r53_42: "round53 (- 604957090854586848) = Fin (- 604957090854586880)"
  using round53_binade [of 59 0 "- 604957090854586848" "- 4726227272301460"] by simp

lemma r53_43: "round53 (2132033029624003884388227203395 / 162259276829213363391578010288128) = Fin (946812863499959 / 72057594037927936)"
  using round53_binade [of 0 7 "2132033029624003884388227203395 / 162259276829213363391578010288128" "7574502907999672"] by simp

lemma r53_44: "round53 (946812863499959 / 154742504910672534362390528) = Fin (946812863499959 / 154742504910672534362390528)"
  using round53_binade [of 0 38 "946812863499959 / 154742504910672534362390528" "7574502907999672"] by simp

lemma r53_45: "round53 (- (946812863499959 / 154742504910672534362390528)) = Fin (- (946812863499959 / 154742504910672534362390528))"
  using round53_binade [of 0 38 "- (946812863499959 / 154742504910672534362390528)" "- 7574502907999672"] by simp

lemma r53_46: "round53 (896454598488991993595193001681 / 23945242826029513411849172299223580994042798784118784) = Fin (6369693028950905 / 170141183460469231731687303715884105728)"
  using round53_binade [of 0 75 "896454598488991993595193001681 / 23945242826029513411849172299223580994042798784118784" "6369693028950905"] by simp

lemma r53_47: "round53 (6369693028950905 / 170141183460469231731687303715884105728) = Fin (6369693028950905 / 170141183460469231731687303715884105728)"
  using round53_binade [of 0 75 "6369693028950905 / 170141183460469231731687303715884105728" "6369693028950905"] by simp

lemma r53_48: "round53 (sqrt (6369693028950905 / 170141183460469231731687303715884105728)) = Fin (946812863499959 / 154742504910672534362390528)"
  using round53_sqrt [of 0 38 "6369693028950905 / 170141183460469231731687303715884105728" "7574502907999672"] by (simp add: power2_eq_square)

lemma r53_49: "round53 (- (3301818198531475 / 9671406556917033397649408)) = Fin (- (3301818198531475 / 9671406556917033397649408))"
  using round53_binade [of 0 32 "- (3301818198531475 / 9671406556917033397649408)" "- 6603636397062950"] by simp

lemma r53_50: "round53 (4841462082862351 / 41538374868278621028243970633760768) = Fin (4841462082862351 / 41538374868278621028243970633760768)"
  using round53_binade [of 0 63 "4841462082862351 / 41538374868278621028243970633760768" "4841462082862351"] by simp

lemma r53_51: "round53 (- (3301818198530021 / 9671406556917033397649408)) = Fin (- (3301818198530021 / 9671406556917033397649408))"
  using round53_binade [of 0 32 "- (3301818198530021 / 9671406556917033397649408)" "- 6603636397060042"] by simp

lemma r53_52: "round53 (10902003416144033170525238260441 / 93536104789177786765035829293842113257979682750464) = Fin (4841462082858087 / 41538374868278621028243970633760768)"
  using round53_binade [of 0 63 "10902003416144033170525238260441 / 93536104789177786765035829293842113257979682750464" "4841462082858087"] by simp

lemma r53_53: "round53 (4841462082858087 / 41538374868278621028243970633760768) = Fin (4841462082858087 / 41538374868278621028243970633760768)"
  using round53_binade [of 0 63 "4841462082858087 / 41538374868278621028243970633760768" "4841462082858087"] by simp

lemma r53_54: "round53 (23439755099752566071850581299569 / 1725436586697640946858688965569256363112777243042596638790631055949824) = Fin (2602335580332023 / 191561942608236107294793378393788647952342390272950272)"
  using round53_binade [of 0 126 "23439755099752566071850581299569 / 1725436586697640946858688965569256363112777243042596638790631055949824" "5204671160664046"] by simp

lemma r53_55: "round53 (12599109039049984655972250620001 / 7957171782556586274486115970349133441607298412757563479047423630290551952200534008528896) = Fin (5595128377966489 / 3533694129556768659166595001485837031654967793751237916243212402585239552)"
  using round53_binade [of 0 189 "12599109039049984655972250620001 / 7957171782556586274486115970349133441607298412757563479047423630290551952200534008528896" "5595128377966489"] by simp

lemma r53_56: "round53 (31305461565925914189850806987121 / 12486994201263968925526388919172665222994392570659884603436627838501486955279062480481224412253967884639307724485626491581791902717153141225160704) = Fin (1737802211350443 / 693167423530203714894603546035770925859109268843954143792619895153655326951406405759993601526034894524347802740350892957243539456)"
  using round53_binade [of 0 378 "31305461565925914189850806987121 / 12486994201263968925526388919172665222994392570659884603436627838501486955279062480481224412253967884639307724485626491581791902717153141225160704" "6951208845401772"] by simp

lemma r53_57: "round53 (3475604422719253 / 3475604422700886) = Fin (4503599627394295 / 4503599627370496)"
  using round53_binade [of 0 0 "3475604422719253 / 3475604422700886" "4503599627394295"] by simp

lemma r53_58: "round53 (11190256755962546 / 5595128377966489) = Fin (1125899906845599 / 562949953421312)"
  using round53_binade [of 1 0 "11190256755962546 / 5595128377966489" "4503599627382396"] by simp

lemma r53_59: "round53 (- (4503599627370497 / 4503599627370496)) = Fin (- (4503599627370497 / 4503599627370496))"
  using round53_binade [of 0 0 "- (4503599627370497 / 4503599627370496)" "- 4503599627370497"] by simp

lemma r53_60: "round53 (- (1 / 4503599627370496)) = Fin (- (1 / 4503599627370496))"
  using round53_binade [of 0 52 "- (1 / 4503599627370496)" "- 4503599627370496"] by simp

lemma r53_61: "round53 (- (4811805344741395 / 11972621413014756705924586149611790497021399392059392)) = Fin (- (4811805344741395 / 11972621413014756705924586149611790497021399392059392))"
  using round53_binade [of 0 121 "- (4811805344741395 / 11972621413014756705924586149611790497021399392059392)" "- 4811805344741395"] by simp

lemma pair0_distance:
  "sub round53 (pos (pair0 ! Suc 0)) (pos (pair0 ! 0)) = vec (1 / 2 ^ 31) 0 0"
  "length_vec round53 (vec (1 / 2 ^ 31) 0 0) = Fin (1 / 2 ^ 31)"
  "distance2 round53 (pos (pair0 ! 0)) (pos (pair0 ! Suc 0)) = Fin (1 / 2 ^ 62)"
  by (simp_all add: pair0_def sub_def dsub_def length_vec_def length2_def distance2_def dot_def
      vec_def
      r53_17 r53_18 r53_19 r53_20)

lemma stack_coefficient_pair0:
  "stack_coefficient round53 (Fin (1 / 2 ^ 31)) = Fin (946812863499959 / 2 ^ 56)"
  by (simp add: stack_coefficient_def sigma6_def sigma12_def cube_def Let_def STACK_SIGMA_def
      EPSILON_def lit_def dsub_def
      r53_18 r53_36 r53_22 r53_37 r53_23 r53_38 r53_24 r53_25 r53_26 r53_27 r53_28 r53_29
      r53_39 r53_40 r53_41 r53_42 r53_43)

lemma Fstack_pair0:
  "Fstack round53 0 (Suc 0) pair0
   = Inr [\<lparr>pos = vec 0 0 0, vel = vec 0 0 0, force = vec (946812863499959 / 2 ^ 87) 0 0, mass = Fin 1\<rparr>,
          \<lparr>pos = vec (1 / 2 ^ 31) 0 0, vel = vec 0 0 0, force = vec (- (946812863499959 / 2 ^ 87)) 0 0, mass = Fin 1\<rparr>]"
  unfolding Fstack_coefficient Let_def pair0_distance stack_coefficient_pair0
  by (simp add: pair0_def add_force_def vneg_def scale_def add_def lit_def vec_def
      r53_44 r53_45 r53_46 r53_47 r53_48)

text \<open>
  Under binary64 rounding, two bases \<open>2\<^sup>-\<^sup>3\<^sup>1\<close> m apart: the potential is the double
  \<^verbatim>\<open>0x1.86536bc9c9ee7p-70\<close>, about \<open>1.29148e-21\<close> J; two bases at the distance \<open>\<sigma>\<close>: the potential is zero; a
  particle paired with itself is at distance zero and the assertion fails.
\<close>

theorem stacking_potential_and_force_witness:
  "Vstack round53 (pair0 ! 0) (pair0 ! Suc 0) = Fin (6866685208076007 / 2 ^ 122)
   \<and> Vstack round53 (pair_sigma ! 0) (pair_sigma ! Suc 0) = Fin 0
   \<and> Fstack round53 0 0 pair0 = Inl AssertionFailed"
proof -
  have d: "distance2 round53 (pos (pair_sigma ! 0)) (pos (pair_sigma ! Suc 0))
           = dmul round53 (STACK_SIGMA round53) (STACK_SIGMA round53)"
    by (simp add: pair_sigma_def distance2_def sub_def dsub_def length2_def dot_def vec_def
        STACK_SIGMA_def lit_def
        r53_49 r53_25 r53_50 r53_26 r53_27 r53_28 r53_24 r53_29 r53_31)
  have 3: "Vstack round53 (pair_sigma ! 0) (pair_sigma ! Suc 0) = Fin 0"
    using stacking_potential_and_force [of round53 "pair_sigma ! 0" "pair_sigma ! Suc 0"]
    unfolding d
    by (simp add: stack_potential_def sigma6_def sigma12_def cube_def Let_def STACK_SIGMA_def
        EPSILON_def lit_def dsub_def
        r53_49 r53_25 r53_50 r53_26 r53_27 r53_28 r53_24 r53_29 r53_31)
  have 1: "Vstack round53 (pair0 ! 0) (pair0 ! Suc 0) = Fin (6866685208076007 / 2 ^ 122)"
    using stacking_potential_and_force [of round53 "pair0 ! 0" "pair0 ! Suc 0"]
    unfolding pair0_distance
    by (simp add: stack_potential_def sigma6_def sigma12_def cube_def Let_def STACK_SIGMA_def
        EPSILON_def lit_def dsub_def
        r53_21 r53_22 r53_23 r53_24 r53_25 r53_26 r53_27 r53_28 r53_29 r53_30 r53_31 r53_32
        r53_33 r53_34 r53_35)
  have 2: "Fstack round53 0 0 pair0 = Inl AssertionFailed"
    using stacking_potential_and_force [of round53 _ _ 0 0 pair0]
    by (simp add: Let_def pair0_def sub_def dsub_def length_vec_def length2_def dot_def lit_def
        vec_def)
  show ?thesis using 1 2 3 by blast
qed

text \<open>
  The claim as stated fails on these two bases.  The distance is \<open>r = 2\<^sup>-\<^sup>3\<^sup>1\<close> and the number
  \<open>-12 \<epsilon> (\<sigma>\<^sup>1\<^sup>2 / r\<^sup>1\<^sup>4 - \<sigma>\<^sup>6 / r\<^sup>8)\<close> is the double \<^verbatim>\<open>0x1.ae8f8632e75b8p-7\<close>, about \<open>0.0131397\<close>.  The force
  added to the first particle is the separation vector times that number; its magnitude
  is the double \<^verbatim>\<open>0x1.ae8f8632e75b8p-38\<close>, about \<open>6.11863e-12\<close>, which is \<open>r\<close> times the number and not the number.
  Nor is zero the least value of the potential the code computes: for two bases
  \<open>3.4139999999984964e-10\<close> m apart, a little closer than \<open>\<sigma>\<close>, \<^verbatim>\<open>Vstack\<close> returns the double
  \<^verbatim>\<open>-0x1.1184fbc4d3813p-121\<close>, about \<open>-4.01901e-37\<close> J.
\<close>

theorem stacking_force_magnitude_counterexample:
  "length_vec round53 (sub round53 (pos (pair0 ! Suc 0)) (pos (pair0 ! 0))) = Fin (1 / 2 ^ 31)
   \<and> stack_coefficient round53 (Fin (1 / 2 ^ 31)) = Fin (946812863499959 / 2 ^ 56)
   \<and> Fstack round53 0 (Suc 0) pair0
     = Inr [\<lparr>pos = vec 0 0 0, vel = vec 0 0 0, force = vec (946812863499959 / 2 ^ 87) 0 0, mass = Fin 1\<rparr>,
            \<lparr>pos = vec (1 / 2 ^ 31) 0 0, vel = vec 0 0 0, force = vec (- (946812863499959 / 2 ^ 87)) 0 0, mass = Fin 1\<rparr>]
   \<and> length_vec round53 (vec (946812863499959 / 2 ^ 87) 0 0) = Fin (946812863499959 / 2 ^ 87)
   \<and> ((946812863499959 / 2 ^ 87) :: real) = 1 / 2 ^ 31 * (946812863499959 / 2 ^ 56)
   \<and> Vstack round53 (pair_near ! 0) (pair_near ! Suc 0) = Fin (- (4811805344741395 / 2 ^ 173))"
proof -
  have "length_vec round53 (vec (946812863499959 / 2 ^ 87) 0 0) = Fin (946812863499959 / 2 ^ 87)"
    by (simp add: length_vec_def length2_def dot_def vec_def
        r53_44 r53_45 r53_46 r53_47 r53_48)
  moreover have "Vstack round53 (pair_near ! 0) (pair_near ! Suc 0) = Fin (- (4811805344741395 / 2 ^ 173))"
    unfolding Vstack_potential
    by (simp add: pair_near_def distance2_def sub_def dsub_def length2_def dot_def vec_def
        stack_potential_def sigma6_def sigma12_def cube_def Let_def STACK_SIGMA_def
        EPSILON_def lit_def
        r53_51 r53_52 r53_53 r53_54 r53_55 r53_56 r53_24 r53_25 r53_26 r53_27 r53_28 r53_29
        r53_57 r53_31 r53_58 r53_59 r53_60 r53_61)
  ultimately show ?thesis
    using Fstack_pair0 pair0_distance stack_coefficient_pair0 by simp
qed

section \<open>The colinear guard of the angle force\<close>


lemma r53_62: "round53 (sqrt 26) = Fin (2870492797671419 / 562949953421312)"
  using round53_sqrt [of 2 0 "26" "5740985595342838"] by (simp add: power2_eq_square)

lemma r53_63: "round53 (sqrt 104) = Fin (2870492797671419 / 281474976710656)"
  using round53_sqrt [of 3 0 "104" "5740985595342838"] by (simp add: power2_eq_square)

lemma r53_64: "round53 (8239728901483490015988689473561 / 158456325028528675187087900672) = Fin (7318349394477055 / 140737488355328)"
  using round53_binade [of 5 0 "8239728901483490015988689473561 / 158456325028528675187087900672" "7318349394477055"] by simp

lemma r53_65: "round53 (7318349394477056 / 7318349394477055) = Fin (4503599627370497 / 4503599627370496)"
  using round53_binade [of 0 0 "7318349394477056 / 7318349394477055" "4503599627370497"] by simp

lemma r53_66: "round53 (20282409603651679431146506027009 / 20282409603651670423947251286016) = Fin (2251799813685249 / 2251799813685248)"
  using round53_binade [of 0 0 "20282409603651679431146506027009 / 20282409603651670423947251286016" "4503599627370498"] by simp

lemma r53_67: "round53 (- (1 / 2251799813685248)) = Fin (- (1 / 2251799813685248))"
  using round53_binade [of 0 51 "- (1 / 2251799813685248)" "- 4503599627370496"] by simp

lemma r53_68: "round53 (120295133618534875 / 166153499473114484112975882535043072) = Fin (3759222925579215 / 5192296858534827628530496329220096)"
  using round53_binade [of 0 61 "120295133618534875 / 166153499473114484112975882535043072" "7518445851158430"] by simp

lemma colinear1_cos:
  "angle_cos round53 (vec 0 1 5) (vec 0 2 10) = Fin (1 + 1 / 2 ^ 52)"
  by (simp add: angle_cos_def length_vec_def length2_def dot_def vec_def
      r53_62 r53_63 r53_64 r53_65 r53_66 r53_67)

lemma colinear1_sin:
  "angle_sin round53 (vec 0 1 5) (vec 0 2 10) = NaN"
  unfolding angle_sin_def colinear1_cos
  by (simp add: lit_def dsub_def
      r53_62 r53_63 r53_64 r53_65 r53_66 r53_67)

text \<open>
  Claim C7 at a concrete input, under binary64 rounding.  The phosphate, the sugar and the
  base of \<open>colinear1\<close> lie on a straight line (\<open>\<theta> = 0\<close>).  The lengths of the bond vectors
  round to \<open>sqrt 26\<close> and \<open>sqrt 104\<close> a little too small, the cosine comes out as
  \<open>1 + 2\<^sup>-\<^sup>5\<^sup>2\<close>, and the sine, the square root of a negative number, is a NaN.  A NaN is not
  below the threshold: the guard is not taken, the angle and the force are NaN, and the
  assertion on the direction of the force fails.  This holds whatever the equilibrium
  angle \<open>theta0\<close> is.
\<close>

theorem Fangle_colinear_failure:
  "angle_cos round53 (sub round53 (pos (colinear1 ! 2)) (pos (colinear1 ! 0)))
                     (sub round53 (pos (colinear1 ! Suc 0)) (pos (colinear1 ! 0)))
   = Fin (1 + 1 / 2 ^ 52)
   \<and> angle_sin round53 (sub round53 (pos (colinear1 ! 2)) (pos (colinear1 ! 0)))
                       (sub round53 (pos (colinear1 ! Suc 0)) (pos (colinear1 ! 0)))
     = NaN
   \<and> Fangle round53 2 0 (Suc 0) theta0 colinear1 = Inl AssertionFailed"
proof -
  have s: "sub round53 (pos (colinear1 ! 2)) (pos (colinear1 ! 0)) = vec 0 1 5"
    "sub round53 (pos (colinear1 ! Suc 0)) (pos (colinear1 ! 0)) = vec 0 2 10"
    by (simp_all add: colinear1_def sub_def dsub_def vec_def)
  have k: "\<not> deq (BOND_Ktheta round53) (lit round53 0)"
    by (simp add: BOND_Ktheta_def EPSILON_def lit_def
        r53_29 r53_68)
  have c: "ddiv round53 (dot round53 (vec 0 1 5) (vec 0 2 10))
             (dmul round53 (length_vec round53 (vec 0 1 5)) (length_vec round53 (vec 0 2 10)))
           = Fin (1 + 1 / 2 ^ 52)"
    using colinear1_cos by (simp add: angle_cos_def)
  have n: "dsqrt round53 (dsub round53 (lit round53 1)
             (dmul round53 (Fin (1 + 1 / 2 ^ 52)) (Fin (1 + 1 / 2 ^ 52)))) = NaN"
    using colinear1_sin unfolding angle_sin_def colinear1_cos .
  have "Fangle round53 2 0 (Suc 0) theta0 colinear1 = Inl AssertionFailed"
    unfolding Fangle_def Let_def s c n using k by simp
  then show ?thesis by (simp add: s colinear1_cos colinear1_sin)
qed

section \<open>The first loop of the integrator\<close>

lemma for_loop_append:
  "for_loop (xs @ ys) body s
   = (case for_loop xs body s of Inl e \<Rightarrow> Inl e | Inr s' \<Rightarrow> for_loop ys body s')"
  by (induction xs arbitrary: s) (auto split: sum.splits)

lemma for_loop_each:
  assumes body: "\<And>i w. body i w = (if bad (w ! i) then Inl AssertionFailed else Inr (w[i := f (w ! i)]))"
    and N: "N \<le> length w"
  shows "for_loop [0 ..< N] body w
         = (if \<exists>i<N. bad (w ! i) then Inl AssertionFailed
            else Inr (map f (take N w) @ drop N w))"
  using N
proof (induction N)
  case 0
  then show ?case by simp
next
  case (Suc N)
  then have lt: "N < length w" by simp
  have nth: "(map f (take N w) @ drop N w) ! N = w ! N"
    using lt by (simp add: nth_append)
  have upd: "(map f (take N w) @ drop N w)[N := f (w ! N)]
             = map f (take (Suc N) w) @ drop (Suc N) w"
    using lt by (simp add: list_update_append take_Suc_conv_app_nth upd_conv_take_nth_drop min_def)
  have ex: "(\<exists>i<Suc N. bad (w ! i)) \<longleftrightarrow> (\<exists>i<N. bad (w ! i)) \<or> bad (w ! N)"
    by (auto simp: less_Suc_eq)
  show ?case
    using Suc.IH lt
    by (simp add: for_loop_append body nth upd ex del: upt_Suc) (simp add: for_loop_append body nth upd)
qed

lemma ex_nth_set: "(\<exists>i<length w. P (w ! i)) \<longleftrightarrow> (\<exists>p\<in>set w. P p)"
  by (auto simp: Bex_def in_set_conv_nth)

lemma verlet_first_body_eq:
  "verlet_first_body r dt i w
   = (if has_nan (half_kick r dt (w ! i)) then Inl AssertionFailed
      else Inr (w[i := kick_drift r dt (w ! i)]))"
  by (simp add: verlet_first_body_def has_nan_def half_kick_def kick_drift_def Let_def)

lemma verlet_first_loop_eq:
  assumes "length w = numParticles cfg"
  shows "verlet_first_loop r cfg w
         = (if \<exists>i<length w. has_nan (half_kick r (timeStep cfg) (w ! i)) then Inl AssertionFailed
            else Inr (map (kick_drift r (timeStep cfg)) w))"
  unfolding verlet_first_loop_def
  using for_loop_each [where body = "verlet_first_body r (timeStep cfg)"
      and bad = "\<lambda>p. has_nan (half_kick r (timeStep cfg) p)"
      and f = "kick_drift r (timeStep cfg)" and N = "numParticles cfg" and w = w,
      OF verlet_first_body_eq] assms
  by simp

text \<open>
  The assertion of the first loop tests \<^verbatim>\<open>isnan\<close> only: an infinite velocity passes it, and
  the loop moves the particle to a non-finite position.
\<close>

lemma verlet_first_loop_runaway1:
  "\<not> finite_dbl (vec_x (half_kick exact (timeStep cfg1) (runaway1 ! 0)))
   \<and> verlet_first_loop exact cfg1 runaway1
     = Inr [\<lparr>pos = \<lparr>vec_x = PInf, vec_y = Fin 0, vec_z = Fin 0\<rparr>,
             vel = \<lparr>vec_x = PInf, vec_y = Fin 0, vec_z = Fin 0\<rparr>,
             force = vec 0 0 0, mass = Fin 1\<rparr>,
            \<lparr>pos = vec 1 0 0, vel = vec 0 0 0, force = vec 0 0 0, mass = Fin 1\<rparr>,
            \<lparr>pos = vec 0 1 0, vel = vec 0 0 0, force = vec 0 0 0, mass = Fin 1\<rparr>]"
proof -
  have l: "length runaway1 = numParticles cfg1"
    by (simp add: runaway1_def cfg1_def numParticles_def)
  have h: "half_kick exact (timeStep cfg1) (runaway1 ! 0) = \<lparr>vec_x = PInf, vec_y = Fin 0, vec_z = Fin 0\<rparr>"
    by (simp add: runaway1_def half_kick_def cfg1_def lit_def add_def scale_def vec_def)
  have f: "\<not> (\<exists>i<length runaway1. has_nan (half_kick exact (timeStep cfg1) (runaway1 ! i)))"
    using ex_nth_set [of runaway1 "\<lambda>p. has_nan (half_kick exact (timeStep cfg1) p)"]
    by (simp add: runaway1_def has_nan_def half_kick_def cfg1_def lit_def add_def scale_def vec_def)
  have k: "map (kick_drift exact (timeStep cfg1)) runaway1
     = [\<lparr>pos = \<lparr>vec_x = PInf, vec_y = Fin 0, vec_z = Fin 0\<rparr>,
             vel = \<lparr>vec_x = PInf, vec_y = Fin 0, vec_z = Fin 0\<rparr>,
             force = vec 0 0 0, mass = Fin 1\<rparr>,
            \<lparr>pos = vec 1 0 0, vel = vec 0 0 0, force = vec 0 0 0, mass = Fin 1\<rparr>,
            \<lparr>pos = vec 0 1 0, vel = vec 0 0 0, force = vec 0 0 0, mass = Fin 1\<rparr>]"
    by (simp add: runaway1_def kick_drift_def half_kick_def cfg1_def lit_def add_def scale_def vec_def)
  show ?thesis
    using f by (simp add: verlet_first_loop_eq [OF l] h k)
qed

section \<open>What the force pass leaves alone\<close>

lemma frame_length: "frame w' = frame w \<Longrightarrow> length w' = length w"
  unfolding frame_def by (rule map_eq_imp_length_eq)

lemma frame_nth:
  assumes "frame w' = frame w" "i < length w"
  shows "pos (w' ! i) = pos (w ! i)" "vel (w' ! i) = vel (w ! i)" "mass (w' ! i) = mass (w ! i)"
proof -
  have l: "i < length w'" using assms(2) frame_length [OF assms(1)] by simp
  have "frame w' ! i = frame w ! i" using assms(1) by simp
  then have "(pos (w' ! i), vel (w' ! i), mass (w' ! i)) = (pos (w ! i), vel (w ! i), mass (w ! i))"
    using l assms(2) by (simp add: frame_def)
  then show "pos (w' ! i) = pos (w ! i)" "vel (w' ! i) = vel (w ! i)" "mass (w' ! i) = mass (w ! i)"
    by simp_all
qed

lemma frame_finite_pos: "frame w' = frame w \<Longrightarrow> finite_pos w' = finite_pos w"
proof -
  assume "frame w' = frame w"
  then have "map fst (frame w') = map fst (frame w)" by simp
  then have "map pos w' = map pos w" by (simp add: frame_def comp_def)
  then have "pos ` set w' = pos ` set w" by (metis set_map)
  then show ?thesis unfolding finite_pos_def by (metis (no_types, lifting) image_iff)
qed

lemma frame_update:
  assumes "pos q = pos (w ! i)" "vel q = vel (w ! i)" "mass q = mass (w ! i)"
  shows "frame (w[i := q]) = frame w"
proof (cases "i < length w")
  case True
  have "(frame w)[i := (pos q, vel q, mass q)] = frame w"
    using True assms by (simp add: frame_def list_update_same_conv)
  then show ?thesis by (simp add: frame_def map_update)
next
  case False
  then show ?thesis by (simp add: not_less list_update_beyond)
qed

lemma frame_update_force [simp]: "frame (w[i := (w ! i)\<lparr>force := F\<rparr>]) = frame w"
  by (rule frame_update) simp_all

lemma Fbond_frame [simp]: "frame (Fbond r p1 p2 d0 w) = frame w"
  by (simp add: Fbond_def Let_def)

lemma Fstack_frame: "Fstack r p1 p2 w = Inr w' \<Longrightarrow> frame w' = frame w"
  by (auto simp: Fstack_def Let_def split: if_splits)

lemma Fangle_frame: "Fangle r p1 p2 p3 theta0 w = Inr w' \<Longrightarrow> frame w' = frame w"
  by (auto simp: Fangle_def Let_def split: if_splits)

lemma reset_forces_frame [simp]: "frame (reset_forces r cfg w) = frame w"
proof -
  have "frame (fold (\<lambda>i w. w[i := (w ! i)\<lparr>force := F\<rparr>]) ns w) = frame w" for F ns
    by (induction ns arbitrary: w) simp_all
  then show ?thesis by (simp add: reset_forces_def)
qed

lemma FdihedralParticle_split:
  "FdihedralParticle r target p1 p2 p3 p4 Vorig phi0 w
   = (fd_restore r target w)
       [target := (fd_restore r target w ! target)
          \<lparr>force := add r (force (fd_restore r target w ! target))
                      (fd_force r target p1 p2 p3 p4 Vorig phi0 w)\<rparr>]"
  by (simp add: FdihedralParticle_def fd_restore_def fd_force_def Let_def)

lemma update_own_coordinate:
  "vec_x v = a \<Longrightarrow> v\<lparr>vec_x := a\<rparr> = v"
  "vec_y v = a \<Longrightarrow> v\<lparr>vec_y := a\<rparr> = v"
  "vec_z v = a \<Longrightarrow> v\<lparr>vec_z := a\<rparr> = v"
  by auto

lemma perturb_restore_exact:
  "finite_dbl (vec_x (pos (w ! t))) \<Longrightarrow> pos_x_sub exact t (Fin h) (pos_x_add exact t (Fin h) w) = w"
  "finite_dbl (vec_y (pos (w ! t))) \<Longrightarrow> pos_y_sub exact t (Fin h) (pos_y_add exact t (Fin h) w) = w"
  "finite_dbl (vec_z (pos (w ! t))) \<Longrightarrow> pos_z_sub exact t (Fin h) (pos_z_add exact t (Fin h) w) = w"
proof -
  show "pos_x_sub exact t (Fin h) (pos_x_add exact t (Fin h) w) = w"
    if "finite_dbl (vec_x (pos (w ! t)))"
  proof (cases "t < length w")
    case True
    from that obtain a where a: "vec_x (pos (w ! t)) = Fin a" by (rule finite_dblE)
    show ?thesis
      using True a
      by (simp add: pos_x_sub_def pos_x_add_def dsub_def update_own_coordinate list_update_same_conv)
  next
    case False
    then show ?thesis by (simp add: pos_x_sub_def pos_x_add_def not_less list_update_beyond)
  qed
  show "pos_y_sub exact t (Fin h) (pos_y_add exact t (Fin h) w) = w"
    if "finite_dbl (vec_y (pos (w ! t)))"
  proof (cases "t < length w")
    case True
    from that obtain a where a: "vec_y (pos (w ! t)) = Fin a" by (rule finite_dblE)
    show ?thesis
      using True a
      by (simp add: pos_y_sub_def pos_y_add_def dsub_def update_own_coordinate list_update_same_conv)
  next
    case False
    then show ?thesis by (simp add: pos_y_sub_def pos_y_add_def not_less list_update_beyond)
  qed
  show "pos_z_sub exact t (Fin h) (pos_z_add exact t (Fin h) w) = w"
    if "finite_dbl (vec_z (pos (w ! t)))"
  proof (cases "t < length w")
    case True
    from that obtain a where a: "vec_z (pos (w ! t)) = Fin a" by (rule finite_dblE)
    show ?thesis
      using True a
      by (simp add: pos_z_sub_def pos_z_add_def dsub_def update_own_coordinate list_update_same_conv)
  next
    case False
    then show ?thesis by (simp add: pos_z_sub_def pos_z_add_def not_less list_update_beyond)
  qed
qed

lemma fd_restore_exact:
  assumes "finite_vec (pos (w ! t))"
  shows "fd_restore exact t w = w"
proof -
  obtain a b c where p: "pos (w ! t) = vec a b c" using assms by (rule finite_vecE)
  show ?thesis
    by (simp add: fd_restore_def Let_def p lit_def perturb_restore_exact)
qed

lemma fd_restore_out_of_range: "length w \<le> t \<Longrightarrow> fd_restore r t w = w"
  by (simp add: fd_restore_def Let_def pos_x_add_def pos_x_sub_def pos_y_add_def pos_y_sub_def
      pos_z_add_def pos_z_sub_def list_update_beyond)

lemma FdihedralParticle_frame_exact:
  assumes "finite_pos w"
  shows "frame (FdihedralParticle exact t p1 p2 p3 p4 Vorig phi0 w) = frame w"
proof (cases "t < length w")
  case True
  then have "finite_vec (pos (w ! t))" using assms by (simp add: finite_pos_def)
  then show ?thesis by (simp add: FdihedralParticle_split fd_restore_exact)
next
  case False
  then show ?thesis by (simp add: FdihedralParticle_split fd_restore_out_of_range)
qed

lemma Fdihedral_frame_exact:
  assumes "finite_pos w"
  shows "frame (Fdihedral exact p1 p2 p3 p4 phi0 w) = frame w"
proof -
  define V where "V = Vdihedral exact p1 p2 p3 p4 phi0 w"
  define w1 where "w1 = FdihedralParticle exact p1 p1 p2 p3 p4 V phi0 w"
  define w2 where "w2 = FdihedralParticle exact p2 p1 p2 p3 p4 V phi0 w1"
  define w3 where "w3 = FdihedralParticle exact p3 p1 p2 p3 p4 V phi0 w2"
  have 1: "frame w1 = frame w" unfolding w1_def using assms by (rule FdihedralParticle_frame_exact)
  have f1: "finite_pos w1" using assms frame_finite_pos [OF 1] by simp
  have 2: "frame w2 = frame w1" unfolding w2_def using f1 by (rule FdihedralParticle_frame_exact)
  have f2: "finite_pos w2" using f1 frame_finite_pos [OF 2] by simp
  have 3: "frame w3 = frame w2" unfolding w3_def using f2 by (rule FdihedralParticle_frame_exact)
  have f3: "finite_pos w3" using f2 frame_finite_pos [OF 3] by simp
  have 4: "frame (FdihedralParticle exact p4 p1 p2 p3 p4 V phi0 w3) = frame w3"
    using f3 by (rule FdihedralParticle_frame_exact)
  have "Fdihedral exact p1 p2 p3 p4 phi0 w = FdihedralParticle exact p4 p1 p2 p3 p4 V phi0 w3"
    unfolding Fdihedral_def Let_def w3_def w2_def w1_def V_def by (rule refl)
  then show ?thesis using 1 2 3 4 by (simp only:)
qed

lemma and_then_Inr:
  "and_then m f = Inr y \<longleftrightarrow> (\<exists>x. m = Inr x \<and> f x = Inr y)"
  by (cases m) (simp_all add: and_then_def)

lemma and_then_InrE:
  assumes "and_then m f = Inr y"
  obtains x where "m = Inr x" "f x = Inr y"
  using assms by (auto simp: and_then_Inr)

lemma monomer_forces_frame_exact:
  assumes "finite_pos w" "monomer_forces exact cfg i w = Inr w'"
  shows "frame w' = frame w"
proof -
  define w3 where "w3 = Fbond exact (Ss cfg i) (Ps cfg (i - 1)) (D_S3P exact)
      (Fbond exact (Ss cfg i) (Ps cfg i) (D_S5P exact)
        (Fbond exact (Ss cfg i) (As cfg i) (D_SA exact) w))"
  have f3: "frame w3 = frame w" by (simp add: w3_def)
  have "and_then (Fstack exact (As cfg i) (As cfg (i - 1)) w3) (\<lambda>w4.
         and_then (Fangle exact (Ps cfg i) (Ss cfg i) (As cfg i) (ANGLE_P_5S_A exact) w4) (\<lambda>w5.
         and_then (Fangle exact (Ps cfg i) (Ss cfg i) (Ps cfg (i - 1)) (ANGLE_P_5S3_P exact) w5) (\<lambda>w6.
         and_then (Fangle exact (Ps cfg (i - 1)) (Ss cfg i) (As cfg i) (ANGLE_P_3S_A exact) w6) (\<lambda>w7.
         and_then (Fangle exact (Ss cfg (i - 1)) (Ps cfg (i - 1)) (Ss cfg i) (ANGLE_S5_P_3S exact) w7) (\<lambda>w8.
           let w9 = Fdihedral exact (Ps cfg i) (Ss cfg i) (Ps cfg (i - 1)) (Ss cfg (i - 1))
                      (DIHEDRAL_P_5S3_P_5S exact) w8;
               w10 = Fdihedral exact (As cfg i) (Ss cfg i) (Ps cfg (i - 1)) (Ss cfg (i - 1))
                       (DIHEDRAL_A_S3_P_5S exact) w9;
               w11 = Fdihedral exact (Ss cfg i) (Ps cfg (i - 1)) (Ss cfg (i - 1)) (As cfg (i - 1))
                       (DIHEDRAL_S3_P_5S_A exact) w10
           in Inr (if 2 \<le> i
                   then Fdihedral exact (Ss cfg i) (Ps cfg (i - 1)) (Ss cfg (i - 1)) (Ps cfg (i - 2))
                          (DIHEDRAL_S3_P_5S3_P exact) w11
                   else w11)))))) = Inr w'"
    using assms(2) unfolding monomer_forces_def w3_def by (simp only: Let_def)
  then obtain w4 w5 w6 w7 w8 where
    s4: "Fstack exact (As cfg i) (As cfg (i - 1)) w3 = Inr w4" and
    s5: "Fangle exact (Ps cfg i) (Ss cfg i) (As cfg i) (ANGLE_P_5S_A exact) w4 = Inr w5" and
    s6: "Fangle exact (Ps cfg i) (Ss cfg i) (Ps cfg (i - 1)) (ANGLE_P_5S3_P exact) w5 = Inr w6" and
    s7: "Fangle exact (Ps cfg (i - 1)) (Ss cfg i) (As cfg i) (ANGLE_P_3S_A exact) w6 = Inr w7" and
    s8: "Fangle exact (Ss cfg (i - 1)) (Ps cfg (i - 1)) (Ss cfg i) (ANGLE_S5_P_3S exact) w7 = Inr w8" and
    s9: "(let w9 = Fdihedral exact (Ps cfg i) (Ss cfg i) (Ps cfg (i - 1)) (Ss cfg (i - 1))
                      (DIHEDRAL_P_5S3_P_5S exact) w8;
               w10 = Fdihedral exact (As cfg i) (Ss cfg i) (Ps cfg (i - 1)) (Ss cfg (i - 1))
                       (DIHEDRAL_A_S3_P_5S exact) w9;
               w11 = Fdihedral exact (Ss cfg i) (Ps cfg (i - 1)) (Ss cfg (i - 1)) (As cfg (i - 1))
                       (DIHEDRAL_S3_P_5S_A exact) w10
           in Inr (if 2 \<le> i
                   then Fdihedral exact (Ss cfg i) (Ps cfg (i - 1)) (Ss cfg (i - 1)) (Ps cfg (i - 2))
                          (DIHEDRAL_S3_P_5S3_P exact) w11
                   else w11)) = (Inr w' :: error + World)"
    by (elim and_then_InrE) blast
  have f8: "frame w8 = frame w"
    using Fstack_frame [OF s4] Fangle_frame [OF s5] Fangle_frame [OF s6] Fangle_frame [OF s7]
      Fangle_frame [OF s8] f3 by simp
  have p8: "finite_pos w8" using assms(1) frame_finite_pos [OF f8] by simp
  define w9 where "w9 = Fdihedral exact (Ps cfg i) (Ss cfg i) (Ps cfg (i - 1)) (Ss cfg (i - 1))
                      (DIHEDRAL_P_5S3_P_5S exact) w8"
  define w10 where "w10 = Fdihedral exact (As cfg i) (Ss cfg i) (Ps cfg (i - 1)) (Ss cfg (i - 1))
                       (DIHEDRAL_A_S3_P_5S exact) w9"
  define w11 where "w11 = Fdihedral exact (Ss cfg i) (Ps cfg (i - 1)) (Ss cfg (i - 1)) (As cfg (i - 1))
                       (DIHEDRAL_S3_P_5S_A exact) w10"
  have f9: "frame w9 = frame w8" unfolding w9_def using p8 by (rule Fdihedral_frame_exact)
  have p9: "finite_pos w9" using p8 frame_finite_pos [OF f9] by simp
  have f10: "frame w10 = frame w9" unfolding w10_def using p9 by (rule Fdihedral_frame_exact)
  have p10: "finite_pos w10" using p9 frame_finite_pos [OF f10] by simp
  have f11: "frame w11 = frame w10" unfolding w11_def using p10 by (rule Fdihedral_frame_exact)
  have p11: "finite_pos w11" using p10 frame_finite_pos [OF f11] by simp
  have f12: "frame (Fdihedral exact (Ss cfg i) (Ps cfg (i - 1)) (Ss cfg (i - 1)) (Ps cfg (i - 2))
                          (DIHEDRAL_S3_P_5S3_P exact) w11) = frame w11"
    using p11 by (rule Fdihedral_frame_exact)
  have "w' = (if 2 \<le> i
                   then Fdihedral exact (Ss cfg i) (Ps cfg (i - 1)) (Ss cfg (i - 1)) (Ps cfg (i - 2))
                          (DIHEDRAL_S3_P_5S3_P exact) w11
                   else w11)"
    using s9 unfolding Let_def w9_def w10_def w11_def by (simp only: sum.inject)
  then show ?thesis using f8 f9 f10 f11 f12 by (cases "2 \<le> i") simp_all
qed

lemma for_loop_invariant:
  assumes "\<And>i s s'. i \<in> set ns \<Longrightarrow> P s \<Longrightarrow> body i s = Inr s' \<Longrightarrow> P s'"
    and "P s" "for_loop ns body s = Inr s'"
  shows "P s'"
  using assms
proof (induction ns arbitrary: s)
  case Nil
  then show ?case by simp
next
  case (Cons i ns)
  from Cons.prems(3) obtain s1 where s1: "body i s = Inr s1" and r: "for_loop ns body s1 = Inr s'"
    by (auto split: sum.splits)
  have p1: "P s1" using Cons.prems(1) [of i s s1] Cons.prems(2) s1 by simp
  have step: "P t'" if "j \<in> set ns" "P t" "body j t = Inr t'" for j t t'
    using Cons.prems(1) [of j t t'] that by simp
  show ?case using Cons.IH [OF step p1 r] by simp
qed

lemma calculateForces_frame_exact:
  assumes "finite_pos w" "calculateForces exact cfg w = Inr w'"
  shows "frame w' = frame w"
proof -
  define w2 where "w2 = Fbond exact (Ss cfg 0) (Ps cfg 0) (D_S5P exact)
      (Fbond exact (Ss cfg 0) (As cfg 0) (D_SA exact) (reset_forces exact cfg w))"
  have f2: "frame w2 = frame w" by (simp add: w2_def)
  have "and_then (Fangle exact (Ps cfg 0) (Ss cfg 0) (As cfg 0) (ANGLE_P_5S_A exact) w2)
           (for_loop [1 ..< nat (numMonomers cfg)] (monomer_forces exact cfg)) = Inr w'"
    using assms(2) unfolding calculateForces_def w2_def by (simp only: Let_def)
  then obtain w3 where
    s3: "Fangle exact (Ps cfg 0) (Ss cfg 0) (As cfg 0) (ANGLE_P_5S_A exact) w2 = Inr w3" and
    l: "for_loop [1 ..< nat (numMonomers cfg)] (monomer_forces exact cfg) w3 = Inr w'"
    by (rule and_then_InrE)
  have f3: "frame w3 = frame w" using Fangle_frame [OF s3] f2 by simp
  have "frame w' = frame w"
  proof (rule for_loop_invariant [where P = "\<lambda>s. frame s = frame w", OF _ f3 l])
    fix i s s'
    assume e: "frame s = frame w" and m: "monomer_forces exact cfg i s = Inr s'"
    have "finite_pos s" using assms(1) frame_finite_pos [OF e] by simp
    then show "frame s' = frame w"
      using monomer_forces_frame_exact [OF _ m] e by simp
  qed
  then show ?thesis .
qed

lemma fd_restore_other: "j \<noteq> t \<Longrightarrow> fd_restore r t w ! j = w ! j"
  by (simp add: fd_restore_def Let_def pos_x_add_def pos_x_sub_def pos_y_add_def pos_y_sub_def
      pos_z_add_def pos_z_sub_def)

lemma FdihedralParticle_other:
  "j \<noteq> t \<Longrightarrow> FdihedralParticle r t p1 p2 p3 p4 Vorig phi0 w ! j = w ! j"
  by (simp add: FdihedralParticle_split fd_restore_other)

lemma fd_restore_length [simp]: "length (fd_restore r t w) = length w"
  by (simp add: fd_restore_def Let_def pos_x_add_def pos_x_sub_def pos_y_add_def pos_y_sub_def
      pos_z_add_def pos_z_sub_def)

lemma FdihedralParticle_pos:
  "t < length w \<Longrightarrow>
   pos (FdihedralParticle r t p1 p2 p3 p4 Vorig phi0 w ! t) = pos (fd_restore r t w ! t)"
  by (simp add: FdihedralParticle_split)

section \<open>The integrator\<close>




lemma kinematics_update:
  assumes "vel q = vel (w ! i)" "mass q = mass (w ! i)"
  shows "kinematics (w[i := q]) = kinematics w"
proof (cases "i < length w")
  case True
  have "(kinematics w)[i := (vel q, mass q)] = kinematics w"
    using True assms by (simp add: kinematics_def list_update_same_conv)
  then show ?thesis by (simp add: kinematics_def map_update)
next
  case False
  then show ?thesis by (simp add: not_less list_update_beyond)
qed

lemma kinematics_force [simp]: "kinematics (w[i := (w ! i)\<lparr>force := F\<rparr>]) = kinematics w"
  by (rule kinematics_update) simp_all

lemma kinematics_pos [simp]: "kinematics (w[i := (w ! i)\<lparr>pos := x\<rparr>]) = kinematics w"
  by (rule kinematics_update) simp_all

















































section \<open>Net force of the interactions\<close>


lemma add_vneg_exact: "finite_vec F \<Longrightarrow> add exact F (vneg F) = vec 0 0 0"
  by (erule finite_vecE) (simp add: vneg_def add_def vec_def)

lemma add_force_other [simp]: "j \<noteq> i \<Longrightarrow> add_force r i F w ! j = w ! j"
  by (simp add: add_force_def)

lemma add_force_length [simp]: "length (add_force r i F w) = length w"
  by (simp add: add_force_def)

lemma add_force_frame [simp]: "frame (add_force r i F w) = frame w"
  by (simp add: add_force_def)

lemma add_force_same [simp]:
  "i < length w \<Longrightarrow> force (add_force r i F w ! i) = add r (force (w ! i)) F"
  by (simp add: add_force_def)









lemma fd_restore_force [simp]: "force (fd_restore r t w ! i) = force (w ! i)"
proof (cases "t < length w")
  case True
  then show ?thesis
    by (cases "i = t")
      (simp_all add: fd_restore_def Let_def pos_x_add_def pos_x_sub_def pos_y_add_def
        pos_y_sub_def pos_z_add_def pos_z_sub_def)
next
  case False
  then show ?thesis
    by (simp add: fd_restore_def Let_def pos_x_add_def pos_x_sub_def pos_y_add_def
        pos_y_sub_def pos_z_add_def pos_z_sub_def not_less list_update_beyond)
qed



lemma r53_103: "round53 (1 / 100000000) = Fin (3022314549036573 / 302231454903657293676544)"
  using round53_binade [of 0 27 "1 / 100000000" "6044629098073146"] by simp





section \<open>The position perturbation under binary64 rounding\<close>

lemma r53_104: "round53 (3022314549036573 / 302231454903657293676544) = Fin (3022314549036573 / 302231454903657293676544)"
  using round53_binade [of 0 27 "3022314549036573 / 302231454903657293676544" "6044629098073146"] by simp

lemma r53_105: "round53 (302231457925971842713117 / 302231454903657293676544) = Fin (1125899918101623 / 1125899906842624)"
  using round53_binade [of 0 0 "302231457925971842713117 / 302231454903657293676544" "4503599672406492"] by simp

lemma r53_106: "round53 (302231454903657275308515 / 302231454903657293676544) = Fin (9007199254740991 / 9007199254740992)"
  using round53_binade [of 0 1 "302231454903657275308515 / 302231454903657293676544" "9007199254740991"] by simp

lemma restored_round53_one: "restored round53 1 = Fin (1 - 1 / 2 ^ 53)"
  by (simp add: restored_def lit_def dsub_def
      r53_103 r53_104 r53_105 r53_106)

lemma restored_round53_zero: "restored round53 0 = Fin 0"
  by (simp add: restored_def lit_def dsub_def
      r53_103 r53_104 r53_105 r53_106)

lemma restored_exact: "restored exact a = Fin a"
  by (simp add: restored_def lit_def dsub_def)

lemma fd_restore_pos:
  assumes "t < length w" "pos (w ! t) = vec a b c"
  shows "pos (fd_restore r t w ! t)
         = \<lparr>vec_x = restored r a, vec_y = restored r b, vec_z = restored r c\<rparr>"
  using assms
  by (simp add: fd_restore_def Let_def pos_x_add_def pos_x_sub_def pos_y_add_def
      pos_y_sub_def pos_z_add_def pos_z_sub_def restored_def vec_def)

lemma fd_restore_round53_unit4:
  "pos (fd_restore round53 0 unit4 ! 0) = vec (1 - 1 / 2 ^ 53) 0 0"
proof -
  have "pos (unit4 ! 0) = vec 1 0 0" "0 < length unit4" by (simp_all add: unit4_def)
  then show ?thesis
    using fd_restore_pos [of 0 unit4 1 0 0 round53]
    by (simp add: restored_round53_one restored_round53_zero vec_def)
qed

text \<open>
  Claim C10 at a concrete input, under binary64 rounding.  A particle at \<open>x = 1\<close> is
  perturbed by \<open>h = 1e-8\<close> (rounded) and restored by the same \<open>h\<close>; both operations round,
  and the position \<^verbatim>\<open>FdihedralParticle\<close>, and so \<^verbatim>\<open>Fdihedral\<close>, leaves behind is
  \<open>1 - 2\<^sup>-\<^sup>5\<^sup>3\<close>, not \<open>1\<close>.
\<close>

theorem Fdihedral_position_drift:
  "pos (unit4 ! 0) = vec 1 0 0
   \<and> pos (FdihedralParticle round53 0 0 (Suc 0) 2 3 (Fin 0) (Fin 0) unit4 ! 0)
     = vec (1 - 1 / 2 ^ 53) 0 0
   \<and> pos (Fdihedral round53 0 (Suc 0) 2 3 (Fin 0) unit4 ! 0) = vec (1 - 1 / 2 ^ 53) 0 0"
proof -
  have l: "0 < length unit4" by (simp add: unit4_def)
  have 1: "pos (FdihedralParticle round53 0 0 (Suc 0) 2 3 V (Fin 0) unit4 ! 0)
           = vec (1 - 1 / 2 ^ 53) 0 0" for V
    using FdihedralParticle_pos [OF l] by (simp add: fd_restore_round53_unit4)
  have "pos (Fdihedral round53 0 (Suc 0) 2 3 (Fin 0) unit4 ! 0) = vec (1 - 1 / 2 ^ 53) 0 0"
    unfolding Fdihedral_def Let_def by (simp add: FdihedralParticle_other 1)
  then show ?thesis using 1 by (simp add: unit4_def)
qed

section \<open>Non-finite velocities are fatal\<close>

lemma dadd_not_finite_left: "\<not> finite_dbl a \<Longrightarrow> \<not> finite_dbl (dadd r a b)"
  by (cases a; cases b) auto

lemma dsub_not_finite_right: "\<not> finite_dbl b \<Longrightarrow> \<not> finite_dbl (dsub r a b)"
  by (cases a; cases b) (auto simp: dsub_def)

lemma dmul_not_finite_left: "\<not> finite_dbl a \<Longrightarrow> \<not> finite_dbl (dmul r a b)"
  by (cases a; cases b) (auto split: if_splits)

lemma ddiv_not_finite_both: "\<not> finite_dbl a \<Longrightarrow> \<not> finite_dbl b \<Longrightarrow> ddiv r a b = NaN"
  by (cases a; cases b) auto

lemma not_finite_vec_cases:
  assumes "\<not> finite_vec v"
  obtains "\<not> finite_dbl (vec_x v)" | "\<not> finite_dbl (vec_y v)" | "\<not> finite_dbl (vec_z v)"
  using assms by (auto simp: finite_vec_def)

lemma dot_not_finite_left: "\<not> finite_vec a \<Longrightarrow> \<not> finite_dbl (dot r a b)"
  by (erule not_finite_vec_cases)
    (simp_all add: dot_def dadd_not_finite dadd_not_finite_left dmul_not_finite_left)

lemma dot_not_finite_right: "\<not> finite_vec b \<Longrightarrow> \<not> finite_dbl (dot r a b)"
  by (erule not_finite_vec_cases)
    (simp_all add: dot_def dadd_not_finite dadd_not_finite_left dmul_not_finite)

lemma length_vec_not_finite: "\<not> finite_vec a \<Longrightarrow> \<not> finite_dbl (length_vec r a)"
  by (simp add: length_vec_def length2_def dsqrt_not_finite dot_not_finite_left)

lemma angle_cos_not_finite:
  assumes "\<not> finite_vec a \<or> \<not> finite_vec b"
  shows "angle_cos r a b = NaN"
proof -
  have "\<not> finite_dbl (dot r a b)"
    using assms dot_not_finite_left dot_not_finite_right by blast
  moreover have "\<not> finite_dbl (dmul r (length_vec r a) (length_vec r b))"
    using assms length_vec_not_finite dmul_not_finite dmul_not_finite_left by blast
  ultimately show ?thesis unfolding angle_cos_def by (rule ddiv_not_finite_both)
qed

lemma Fangle_nan_cos:
  assumes "angle_cos r (sub r (pos (w ! p1)) (pos (w ! p2)))
                       (sub r (pos (w ! p3)) (pos (w ! p2))) = NaN"
    and "\<not> deq (BOND_Ktheta r) (lit r 0)"
  shows "Fangle r p1 p2 p3 theta0 w = Inl AssertionFailed"
  using assms
  by (simp add: Fangle_def Let_def angle_cos_def [symmetric])

lemma sub_not_finite:
  "\<not> finite_vec a \<Longrightarrow> \<not> finite_vec (sub r a b)"
  "\<not> finite_vec b \<Longrightarrow> \<not> finite_vec (sub r a b)"
  by (auto simp: finite_vec_def sub_def dsub_not_finite_left dsub_not_finite_right)

lemma Fangle_bad_position:
  assumes "\<not> finite_vec (pos (w ! i))" "i = p1 \<or> i = p2 \<or> i = p3"
    and "\<not> deq (BOND_Ktheta r) (lit r 0)"
  shows "Fangle r p1 p2 p3 theta0 w = Inl AssertionFailed"
proof -
  have "\<not> finite_vec (sub r (pos (w ! p1)) (pos (w ! p2)))
        \<or> \<not> finite_vec (sub r (pos (w ! p3)) (pos (w ! p2)))"
    using assms(1,2) sub_not_finite by blast
  then show ?thesis
    by (intro Fangle_nan_cos angle_cos_not_finite assms(3))
qed
lemma nonfinite_at_frame: "frame w' = frame w \<Longrightarrow> nonfinite_at i w' = nonfinite_at i w"
  using frame_length [of w' w] frame_nth(1) [of w' w i]
  by (auto simp: nonfinite_at_def)

lemma fd_restore_not_finite:
  assumes "\<not> finite_vec (pos (w ! t))" "t < length w"
  shows "\<not> finite_vec (pos (fd_restore r t w ! t))"
  using assms
  by (auto simp: finite_vec_def fd_restore_def Let_def pos_x_add_def pos_x_sub_def pos_y_add_def
      pos_y_sub_def pos_z_add_def pos_z_sub_def dadd_not_finite_left dsub_not_finite_left)

lemma FdihedralParticle_length [simp]:
  "length (FdihedralParticle r t p1 p2 p3 p4 Vorig phi0 w) = length w"
  by (simp add: FdihedralParticle_split)

lemma FdihedralParticle_nonfinite_at:
  assumes "nonfinite_at i w"
  shows "nonfinite_at i (FdihedralParticle r t p1 p2 p3 p4 Vorig phi0 w)"
proof (cases "i = t")
  case True
  then show ?thesis
    using assms fd_restore_not_finite [of w t r]
    by (simp add: nonfinite_at_def FdihedralParticle_pos)
next
  case False
  then show ?thesis
    using assms by (simp add: nonfinite_at_def FdihedralParticle_other)
qed

lemma Fdihedral_nonfinite_at:
  "nonfinite_at i w \<Longrightarrow> nonfinite_at i (Fdihedral r p1 p2 p3 p4 phi0 w)"
  unfolding Fdihedral_def Let_def by (intro FdihedralParticle_nonfinite_at)

lemma Fstack_nonfinite_at:
  "Fstack r p1 p2 w = Inr w' \<Longrightarrow> nonfinite_at i w' = nonfinite_at i w"
  by (rule nonfinite_at_frame) (rule Fstack_frame)

lemma Fangle_nonfinite_at:
  "Fangle r p1 p2 p3 theta0 w = Inr w' \<Longrightarrow> nonfinite_at i w' = nonfinite_at i w"
  by (rule nonfinite_at_frame) (rule Fangle_frame)

lemma Fbond_nonfinite_at [simp]: "nonfinite_at i (Fbond r p1 p2 d0 w) = nonfinite_at i w"
  by (rule nonfinite_at_frame) simp

lemma monomer_forces_nonfinite_at:
  assumes "nonfinite_at i w" "monomer_forces r cfg j w = Inr w'"
  shows "nonfinite_at i w'"
proof -
  define w3 where "w3 = Fbond r (Ss cfg j) (Ps cfg (j - 1)) (D_S3P r)
     (Fbond r (Ss cfg j) (Ps cfg j) (D_S5P r) (Fbond r (Ss cfg j) (As cfg j) (D_SA r) w))"
  have n3: "nonfinite_at i w3" using assms(1) by (simp add: w3_def)
  have m: "and_then (Fstack r (As cfg j) (As cfg (j - 1)) w3) (\<lambda>w4.
         and_then (Fangle r (Ps cfg j) (Ss cfg j) (As cfg j) (ANGLE_P_5S_A r) w4) (\<lambda>w5.
         and_then (Fangle r (Ps cfg j) (Ss cfg j) (Ps cfg (j - 1)) (ANGLE_P_5S3_P r) w5) (\<lambda>w6.
         and_then (Fangle r (Ps cfg (j - 1)) (Ss cfg j) (As cfg j) (ANGLE_P_3S_A r) w6) (\<lambda>w7.
         and_then (Fangle r (Ss cfg (j - 1)) (Ps cfg (j - 1)) (Ss cfg j) (ANGLE_S5_P_3S r) w7) (\<lambda>w8.
           let w9 = Fdihedral r (Ps cfg j) (Ss cfg j) (Ps cfg (j - 1)) (Ss cfg (j - 1))
                      (DIHEDRAL_P_5S3_P_5S r) w8;
               w10 = Fdihedral r (As cfg j) (Ss cfg j) (Ps cfg (j - 1)) (Ss cfg (j - 1))
                       (DIHEDRAL_A_S3_P_5S r) w9;
               w11 = Fdihedral r (Ss cfg j) (Ps cfg (j - 1)) (Ss cfg (j - 1)) (As cfg (j - 1))
                       (DIHEDRAL_S3_P_5S_A r) w10
           in Inr (if 2 \<le> j
                   then Fdihedral r (Ss cfg j) (Ps cfg (j - 1)) (Ss cfg (j - 1)) (Ps cfg (j - 2))
                          (DIHEDRAL_S3_P_5S3_P r) w11
                   else w11)))))) = Inr w'"
    using assms(2) unfolding monomer_forces_def w3_def by (simp only: Let_def)
  from m obtain w4 w5 w6 w7 w8 where
    s4: "Fstack r (As cfg j) (As cfg (j - 1)) w3 = Inr w4" and
    s5: "Fangle r (Ps cfg j) (Ss cfg j) (As cfg j) (ANGLE_P_5S_A r) w4 = Inr w5" and
    s6: "Fangle r (Ps cfg j) (Ss cfg j) (Ps cfg (j - 1)) (ANGLE_P_5S3_P r) w5 = Inr w6" and
    s7: "Fangle r (Ps cfg (j - 1)) (Ss cfg j) (As cfg j) (ANGLE_P_3S_A r) w6 = Inr w7" and
    s8: "Fangle r (Ss cfg (j - 1)) (Ps cfg (j - 1)) (Ss cfg j) (ANGLE_S5_P_3S r) w7 = Inr w8" and
    m8: "(let w9 = Fdihedral r (Ps cfg j) (Ss cfg j) (Ps cfg (j - 1)) (Ss cfg (j - 1))
                      (DIHEDRAL_P_5S3_P_5S r) w8;
               w10 = Fdihedral r (As cfg j) (Ss cfg j) (Ps cfg (j - 1)) (Ss cfg (j - 1))
                       (DIHEDRAL_A_S3_P_5S r) w9;
               w11 = Fdihedral r (Ss cfg j) (Ps cfg (j - 1)) (Ss cfg (j - 1)) (As cfg (j - 1))
                       (DIHEDRAL_S3_P_5S_A r) w10
           in Inr (if 2 \<le> j
                   then Fdihedral r (Ss cfg j) (Ps cfg (j - 1)) (Ss cfg (j - 1)) (Ps cfg (j - 2))
                          (DIHEDRAL_S3_P_5S3_P r) w11
                   else w11)) = (Inr w' :: error + World)"
    by (elim and_then_InrE) blast
  have n8: "nonfinite_at i w8"
    using n3 Fstack_nonfinite_at [OF s4] Fangle_nonfinite_at [OF s5] Fangle_nonfinite_at [OF s6]
      Fangle_nonfinite_at [OF s7] Fangle_nonfinite_at [OF s8] by simp
  have w': "w' = (if 2 \<le> j
                   then Fdihedral r (Ss cfg j) (Ps cfg (j - 1)) (Ss cfg (j - 1)) (Ps cfg (j - 2))
                          (DIHEDRAL_S3_P_5S3_P r)
                     (Fdihedral r (Ss cfg j) (Ps cfg (j - 1)) (Ss cfg (j - 1)) (As cfg (j - 1))
                       (DIHEDRAL_S3_P_5S_A r)
                     (Fdihedral r (As cfg j) (Ss cfg j) (Ps cfg (j - 1)) (Ss cfg (j - 1))
                       (DIHEDRAL_A_S3_P_5S r)
                     (Fdihedral r (Ps cfg j) (Ss cfg j) (Ps cfg (j - 1)) (Ss cfg (j - 1))
                      (DIHEDRAL_P_5S3_P_5S r) w8)))
                   else (Fdihedral r (Ss cfg j) (Ps cfg (j - 1)) (Ss cfg (j - 1)) (As cfg (j - 1))
                       (DIHEDRAL_S3_P_5S_A r)
                     (Fdihedral r (As cfg j) (Ss cfg j) (Ps cfg (j - 1)) (Ss cfg (j - 1))
                       (DIHEDRAL_A_S3_P_5S r)
                     (Fdihedral r (Ps cfg j) (Ss cfg j) (Ps cfg (j - 1)) (Ss cfg (j - 1))
                      (DIHEDRAL_P_5S3_P_5S r) w8))))"
    using m8 unfolding Let_def by (simp only: sum.inject)
  show ?thesis
    unfolding w' using n8 by (simp add: Fdihedral_nonfinite_at)
qed

lemma monomer_forces_fails:
  assumes "nonfinite_at i w" "i = Ps cfg k \<or> i = Ss cfg k \<or> i = As cfg k"
    and "\<not> deq (BOND_Ktheta r) (lit r 0)"
  shows "monomer_forces r cfg k w = Inl AssertionFailed"
proof -
  define w3 where "w3 = Fbond r (Ss cfg k) (Ps cfg (k - 1)) (D_S3P r)
     (Fbond r (Ss cfg k) (Ps cfg k) (D_S5P r) (Fbond r (Ss cfg k) (As cfg k) (D_SA r) w))"
  have n3: "nonfinite_at i w3" using assms(1) by (simp add: w3_def)
  have a: "Fangle r (Ps cfg k) (Ss cfg k) (As cfg k) (ANGLE_P_5S_A r) w4 = Inl AssertionFailed"
    if "Fstack r (As cfg k) (As cfg (k - 1)) w3 = Inr w4" for w4
    using n3 Fstack_nonfinite_at [OF that, of i]
    by (intro Fangle_bad_position [of w4 i] assms) (simp add: nonfinite_at_def)
  show ?thesis
  proof (cases "Fstack r (As cfg k) (As cfg (k - 1)) w3")
    case (Inl e)
    then show ?thesis
      unfolding monomer_forces_def Let_def w3_def [symmetric]
      by (cases e) (simp add: and_then_def)
  next
    case (Inr w4)
    then show ?thesis
      unfolding monomer_forces_def Let_def w3_def [symmetric]
      by (simp add: and_then_def a [OF Inr])
  qed
qed

lemma for_loop_fails:
  assumes inv: "\<And>j s s'. P s \<Longrightarrow> body j s = Inr s' \<Longrightarrow> P s'"
    and fails: "\<And>s. P s \<Longrightarrow> body k s = Inl AssertionFailed"
    and "k \<in> set ns" "P s"
  shows "for_loop ns body s = Inl AssertionFailed"
  using assms(3,4)
proof (induction ns arbitrary: s)
  case Nil
  then show ?case by simp
next
  case (Cons j ns)
  show ?case
  proof (cases "body j s")
    case (Inl e)
    then show ?thesis by (cases e) simp
  next
    case (Inr s1)
    have "j \<noteq> k" using Inr fails [OF Cons.prems(2)] by auto
    then have "k \<in> set ns" using Cons.prems(1) by simp
    then show ?thesis using Cons.IH [of s1] inv [OF Cons.prems(2) Inr] Inr by simp
  qed
qed

lemma particle_of_monomer:
  assumes "allocated cfg w" "i < length w"
  obtains k where "k < nat (numMonomers cfg)" "i = Ps cfg k \<or> i = Ss cfg k \<or> i = As cfg k"
proof -
  define n where "n = nat (numMonomers cfg)"
  have l: "length w = 3 * n" "0 < n"
    using assms(1) by (auto simp: allocated_def numParticles_def n_def)
  consider "i < n" | "n \<le> i" "i < 2 * n" | "2 * n \<le> i" "i < 3 * n"
    using assms(2) l by linarith
  then show ?thesis
  proof cases
    case 1
    then show ?thesis using that [of i] by (simp add: n_def Ss_def)
  next
    case 2
    then show ?thesis using that [of "i - n"] l
      by (simp add: n_def As_def)
  next
    case 3
    then show ?thesis using that [of "i - 2 * n"] l
      by (simp add: n_def Ps_def nat_mult_distrib)
  qed
qed

lemma calculateForces_fails:
  assumes "allocated cfg w" "nonfinite_at i w" "\<not> deq (BOND_Ktheta r) (lit r 0)"
  shows "calculateForces r cfg w = Inl AssertionFailed"
proof -
  have il: "i < length w" using assms(2) by (simp add: nonfinite_at_def)
  obtain k where k: "k < nat (numMonomers cfg)" "i = Ps cfg k \<or> i = Ss cfg k \<or> i = As cfg k"
    using particle_of_monomer [OF assms(1) il] by blast
  define w2 where "w2 = Fbond r (Ss cfg 0) (Ps cfg 0) (D_S5P r)
     (Fbond r (Ss cfg 0) (As cfg 0) (D_SA r) (reset_forces r cfg w))"
  have n2: "nonfinite_at i w2"
    using assms(2) nonfinite_at_frame [of "reset_forces r cfg w" w i] by (simp add: w2_def)
  have c: "calculateForces r cfg w
     = and_then (Fangle r (Ps cfg 0) (Ss cfg 0) (As cfg 0) (ANGLE_P_5S_A r) w2)
           (for_loop [1 ..< nat (numMonomers cfg)] (monomer_forces r cfg))"
    unfolding calculateForces_def Let_def w2_def by (rule refl)
  show ?thesis
  proof (cases "Fangle r (Ps cfg 0) (Ss cfg 0) (As cfg 0) (ANGLE_P_5S_A r) w2")
    case (Inl e)
    then show ?thesis unfolding c by (cases e) (simp add: and_then_def)
  next
    case (Inr w3)
    have n3: "nonfinite_at i w3" using n2 Fangle_nonfinite_at [OF Inr] by simp
    have "k \<noteq> 0"
    proof
      assume "k = 0"
      then have "Fangle r (Ps cfg 0) (Ss cfg 0) (As cfg 0) (ANGLE_P_5S_A r) w2 = Inl AssertionFailed"
        using k(2) n2 by (intro Fangle_bad_position [of w2 i] assms(3)) (simp_all add: nonfinite_at_def)
      then show False using Inr by simp
    qed
    then have "k \<in> set [1 ..< nat (numMonomers cfg)]" using k(1) by simp
    then have "for_loop [1 ..< nat (numMonomers cfg)] (monomer_forces r cfg) w3 = Inl AssertionFailed"
      using n3
      by (intro for_loop_fails [where P = "nonfinite_at i" and k = k])
        (auto intro: monomer_forces_nonfinite_at monomer_forces_fails [OF _ k(2) assms(3)])
    then show ?thesis unfolding c by (simp add: and_then_def Inr)
  qed
qed

lemma kick_drift_not_finite:
  assumes "\<not> finite_vec (half_kick r dt p)"
  shows "\<not> finite_vec (pos (kick_drift r dt p))"
  using assms
  by (auto simp: finite_vec_def kick_drift_def add_def scale_def dadd_not_finite
      dmul_not_finite_left)

lemma verlet_fails:
  assumes "allocated cfg w" "i < length w"
    and "\<not> finite_vec (half_kick r (timeStep cfg) (w ! i))"
    and "\<not> deq (BOND_Ktheta r) (lit r 0)"
  shows "verlet r cfg w = Inl AssertionFailed"
proof -
  have l: "length w = numParticles cfg" using assms(1) by (simp add: allocated_def)
  show ?thesis
  proof (cases "\<exists>j<length w. has_nan (half_kick r (timeStep cfg) (w ! j))")
    case True
    then show ?thesis by (simp add: verlet_def verlet_first_loop_eq [OF l] and_then_def)
  next
    case False
    define w1 where "w1 = map (kick_drift r (timeStep cfg)) w"
    have first: "verlet_first_loop r cfg w = Inr w1"
      using False by (simp add: verlet_first_loop_eq [OF l] w1_def)
    have "allocated cfg w1" using assms(1) by (simp add: allocated_def w1_def)
    moreover have "nonfinite_at i w1"
      using assms(2,3) by (simp add: nonfinite_at_def w1_def kick_drift_not_finite)
    ultimately have "calculateForces r cfg w1 = Inl AssertionFailed"
      using assms(4) by (rule calculateForces_fails)
    then show ?thesis by (simp add: verlet_def first and_then_def)
  qed
qed
text \<open>
  Claim C4.  With the assertions compiled in, no step completes on a velocity that is not
  finite after the first half update: if some component of the half-updated velocity of
  some particle is NaN or infinite, \<^verbatim>\<open>verlet\<close> ends in a failed assertion and returns
  no world.  The assertion of the first loop tests \<^verbatim>\<open>isnan\<close> and is the one to fail exactly
  when some component is NaN.  An infinite component passes it and makes the position of
  the particle non-finite; the cosine of every angle at that particle is then NaN, and the
  assertion of \<^verbatim>\<open>Fangle\<close> on the direction of the angle force fails in the force pass of
  the same call.  That assertion is switched off by a zero angle stiffness, which the
  constant of the code is not unless the rounding makes it so.
\<close>

theorem verlet_nonfinite_velocity_fatal:
  assumes "allocated cfg w" "i < length w"
    and "\<not> finite_vec (half_kick r (timeStep cfg) (w ! i))"
    and "\<not> deq (BOND_Ktheta r) (lit r 0)"
  shows "verlet r cfg w = Inl AssertionFailed
       \<and> (verlet_first_loop r cfg w = Inl AssertionFailed
            \<longleftrightarrow> (\<exists>j<length w. has_nan (half_kick r (timeStep cfg) (w ! j))))"
proof -
  have l: "length w = numParticles cfg" using assms(1) by (simp add: allocated_def)
  show ?thesis using verlet_fails [OF assms] by (simp add: verlet_first_loop_eq [OF l])
qed

theorem verlet_nonfinite_velocity_fatal_witness:
  "half_kick exact (timeStep cfg1) (runaway1 ! 0) = \<lparr>vec_x = PInf, vec_y = Fin 0, vec_z = Fin 0\<rparr>
   \<and> verlet exact cfg1 runaway1 = Inl AssertionFailed
   \<and> verlet_first_loop exact cfg1 runaway1 \<noteq> Inl AssertionFailed
   \<and> half_kick exact (timeStep cfg1) (nan_force1 ! Suc 0) = \<lparr>vec_x = Fin 0, vec_y = NaN, vec_z = Fin 0\<rparr>
   \<and> verlet exact cfg1 nan_force1 = Inl AssertionFailed
   \<and> verlet_first_loop exact cfg1 nan_force1 = Inl AssertionFailed"
proof -
  have a: "allocated cfg1 runaway1" "allocated cfg1 nan_force1"
    by (simp_all add: allocated_def cfg1_def numParticles_def runaway1_def nan_force1_def)
  have i: "0 < length runaway1" "Suc 0 < length nan_force1"
    by (simp_all add: runaway1_def nan_force1_def)
  have k: "\<not> deq (BOND_Ktheta exact) (lit exact 0)"
    by (simp add: BOND_Ktheta_def EPSILON_def lit_def)
  have h: "half_kick exact (timeStep cfg1) (runaway1 ! 0) = \<lparr>vec_x = PInf, vec_y = Fin 0, vec_z = Fin 0\<rparr>"
    by (simp add: runaway1_def half_kick_def cfg1_def lit_def add_def scale_def vec_def)
  have hn: "half_kick exact (timeStep cfg1) (nan_force1 ! Suc 0) = \<lparr>vec_x = Fin 0, vec_y = NaN, vec_z = Fin 0\<rparr>"
    by (simp add: nan_force1_def half_kick_def cfg1_def lit_def add_def scale_def vec_def)
  have f: "\<not> (\<exists>j<length runaway1. has_nan (half_kick exact (timeStep cfg1) (runaway1 ! j)))"
    using ex_nth_set [of runaway1 "\<lambda>p. has_nan (half_kick exact (timeStep cfg1) p)"]
    by (simp add: runaway1_def has_nan_def half_kick_def cfg1_def lit_def add_def scale_def vec_def)
  have n: "\<exists>j<length nan_force1. has_nan (half_kick exact (timeStep cfg1) (nan_force1 ! j))"
    using i(2) by (intro exI [of _ "Suc 0"]) (simp add: hn has_nan_def)
  have "\<not> finite_vec (half_kick exact (timeStep cfg1) (runaway1 ! 0))"
    "\<not> finite_vec (half_kick exact (timeStep cfg1) (nan_force1 ! Suc 0))"
    by (simp_all add: h hn finite_vec_def)
  then show ?thesis
    using verlet_nonfinite_velocity_fatal [OF a(1) i(1) _ k]
      verlet_nonfinite_velocity_fatal [OF a(2) i(2) _ k] f n h hn
    by simp
qed

end
